theory Spec2Isabelle
  imports Main "HOL-Library.Sublist"
begin

section \<open>JavaScript values\<close>

text \<open>
  The client is a Vue single-page application. Its state holds whatever the server
  answered, so the model keeps JavaScript's dynamic values: a response body is a
  \<open>jsval\<close>, and reading a property of it can yield \<open>Undefined\<close> or throw a TypeError.

  Conventions of the model:
  \<^item> a \<open>char\<close> stands for one UTF-16 code unit below 256, so \<open>length\<close> is the
    \<open>length\<close> property of a string and \<open>CHR 0xE9\<close> is the letter e with an acute accent;
  \<^item> numbers are integers (photo ids, HTTP status codes and lengths are the only numbers
    the code handles); \<open>NaN\<close>, fractions and infinities are outside the model;
  \<^item> an object is the list of its own enumerable properties, in insertion order;
  \<^item> values have no identity: \<open>includes\<close> and \<open>!==\<close> are equality and inequality of
    values, as they are in JavaScript for the numbers and strings that serve as photo ids.
\<close>

datatype jsval =
    Undefined
  | Null
  | Bool bool
  | Num int
  | Str string
  | Arr "jsval list"
  | Obj "(string \<times> jsval) list"

datatype response = Response (status: int) (data: jsval)

text \<open>
  What a \<open>catch\<close> clause can receive: a TypeError raised by a property read on
  \<open>null\<close> or \<open>undefined\<close> (it has no \<open>response\<close> property), or the error axios
  rejects with, whose \<open>response\<close> property is absent when no answer arrived.
\<close>

datatype error = TypeError | AxiosError "response option"

text \<open>How an awaited axios call settles: this is the network's and the server's choice.\<close>

datatype outcome = Resolved response | Rejected "response option"

text \<open>Truthiness, as \<open>if (v)\<close>, \<open>!v\<close>, \<open>a || b\<close> and \<open>v-if\<close> read a value.\<close>

fun truthy :: "jsval \<Rightarrow> bool" where
  "truthy Undefined = False"
| "truthy Null = False"
| "truthy (Bool b) = b"
| "truthy (Num n) = (n \<noteq> 0)"
| "truthy (Str s) = (s \<noteq> [])"
| "truthy (Arr xs) = True"
| "truthy (Obj kvs) = True"

text \<open>\<open>a || b\<close> and \<open>a ?? b\<close>.\<close>

definition js_or :: "jsval \<Rightarrow> jsval \<Rightarrow> jsval" where
  "js_or a b = (if truthy a then a else b)"

definition nullish :: "jsval \<Rightarrow> bool" where
  "nullish v = (v = Undefined \<or> v = Null)"

definition js_coalesce :: "jsval \<Rightarrow> jsval \<Rightarrow> jsval" where
  "js_coalesce a b = (if nullish a then b else a)"

text \<open>Decimal digits of a natural number, for \<open>String(n)\<close>.\<close>

fun digits :: "nat \<Rightarrow> string" where
  "digits n =
     (if n < 10 then [''0123456789'' ! n]
      else digits (n div 10) @ [''0123456789'' ! (n mod 10)])"

declare digits.simps [simp del]

definition string_of_int :: "int \<Rightarrow> string" where
  "string_of_int i = (if i < 0 then ''-'' @ digits (nat (- i)) else digits (nat i))"

text \<open>
  Property read \<open>v.k\<close> (\<open>v[k]\<close>). On \<open>null\<close> and \<open>undefined\<close> it throws; an array has
  its \<open>length\<close> and its elements under their decimal indices; a string has its
  \<open>length\<close> and its code units; any other missing property reads as \<open>undefined\<close>.
\<close>

fun get_prop :: "jsval \<Rightarrow> string \<Rightarrow> error + jsval" where
  "get_prop Undefined k = Inl TypeError"
| "get_prop Null k = Inl TypeError"
| "get_prop (Bool b) k = Inr Undefined"
| "get_prop (Num n) k = Inr Undefined"
| "get_prop (Str s) k =
     (if k = ''length'' then Inr (Num (int (length s)))
      else case find (\<lambda>i. digits i = k) [0..<length s] of
             Some i \<Rightarrow> Inr (Str [s ! i])
           | None \<Rightarrow> Inr Undefined)"
| "get_prop (Arr xs) k =
     (if k = ''length'' then Inr (Num (int (length xs)))
      else case find (\<lambda>i. digits i = k) [0..<length xs] of
             Some i \<Rightarrow> Inr (xs ! i)
           | None \<Rightarrow> Inr Undefined)"
| "get_prop (Obj kvs) k =
     (case map_of kvs k of Some v \<Rightarrow> Inr v | None \<Rightarrow> Inr Undefined)"

text \<open>
  String conversion, as a template literal \<open>`${v}`\<close> performs it. An array is its
  elements joined by commas, \<open>null\<close> and \<open>undefined\<close> elements left empty.
\<close>

fun intersperse :: "string \<Rightarrow> string list \<Rightarrow> string" where
  "intersperse sep [] = []"
| "intersperse sep [x] = x"
| "intersperse sep (x # y # ys) = x @ sep @ intersperse sep (y # ys)"

fun to_string :: "jsval \<Rightarrow> string" where
  "to_string Undefined = ''undefined''"
| "to_string Null = ''null''"
| "to_string (Bool b) = (if b then ''true'' else ''false'')"
| "to_string (Num n) = string_of_int n"
| "to_string (Str s) = s"
| "to_string (Arr xs) =
     intersperse '',''
       (map (\<lambda>x. if x = Undefined \<or> x = Null then [] else to_string x) xs)"
| "to_string (Obj kvs) = ''[object Object]''"

section \<open>services/api.js\<close>

text \<open>
  \<open>import.meta.env.VITE_API_BASE_URL\<close> is a string, or \<open>undefined\<close> when the variable
  is not set: \<open>string option\<close>. The \<open>||\<close> takes the default for \<open>undefined\<close> and for
  the empty string alike.
\<close>

definition rawBaseUrl :: "string option \<Rightarrow> string" where
  "rawBaseUrl env =
     (case env of
        None \<Rightarrow> ''http://localhost:5000''
      | Some u \<Rightarrow> if u = [] then ''http://localhost:5000'' else u)"

text \<open>
  \<open>s.replace(/\/$/, '')\<close>: the pattern has no \<open>g\<close> or \<open>m\<close> flag, so it matches once,
  a slash that is the last character of the string, and removes it.
\<close>

definition replace_trailing_slash :: "string \<Rightarrow> string" where
  "replace_trailing_slash s = (if s \<noteq> [] \<and> last s = CHR ''/'' then butlast s else s)"

definition apiBaseUrl :: "string option \<Rightarrow> string" where
  "apiBaseUrl env = replace_trailing_slash (rawBaseUrl env)"

definition adminHeaders :: "string \<Rightarrow> (string \<times> string) list" where
  "adminHeaders password = [(''X-Admin-Password'', password)]"

text \<open>
  \<open>new URLSearchParams({ password })\<close> holds the single pair \<open>(password, value)\<close>; the
  template literal inserts its serialisation. The serialiser \<open>ser\<close> belongs to the
  platform, so it is a parameter: it receives the list of pairs.
\<close>

definition photoFileUrl ::
  "((string \<times> string) list \<Rightarrow> string) \<Rightarrow> string option \<Rightarrow> jsval \<Rightarrow> string \<Rightarrow> string" where
  "photoFileUrl ser env photoId password =
     (let params = [(''password'', password)]
      in apiBaseUrl env @ ''/photos/'' @ to_string photoId @ ''/file?'' @ ser params)"

definition shareFileUrl :: "string option \<Rightarrow> string \<Rightarrow> jsval \<Rightarrow> string" where
  "shareFileUrl env token photoId =
     apiBaseUrl env @ ''/shares/'' @ token @ ''/files/'' @ to_string photoId"

section \<open>Requests\<close>

text \<open>
  A call on the axios instance \<open>api\<close>: method, path, the \<open>headers\<close> of the config
  (empty when the call passes none) and the body. \<open>api\<close> is created with
  \<open>baseURL: apiBaseUrl\<close>; axios joins the two itself.
\<close>

datatype http_method = GET | POST | DELETE

type_synonym blob = string

datatype body =
    NoBody
  | Json jsval
  | FormData "(string \<times> blob) list"

record request =
  req_method :: http_method
  req_path :: string
  req_headers :: "(string \<times> string) list"
  req_body :: body
  req_responseType :: "string option"






text \<open>The value a header name carries in a request, if the request has that header.\<close>

definition header :: "request \<Rightarrow> string \<Rightarrow> string option" where
  "header r name = map_of (req_headers r) name"

text \<open>\<open>error.response\<close> and \<open>error.response?.data\<close>.\<close>

fun error_response :: "error \<Rightarrow> response option" where
  "error_response TypeError = None"
| "error_response (AxiosError r) = r"

definition error_response_data :: "error \<Rightarrow> jsval" where
  "error_response_data e = (case error_response e of None \<Rightarrow> Undefined | Some r \<Rightarrow> data r)"

section \<open>views/AdminView.vue\<close>

text \<open>
  The refs of the component, and the browser's \<open>sessionStorage\<close> it reads and writes.
  Each handler is first given from its call to its settlement, with no other handler
  running in between: it receives the outcome of every request it awaits and returns
  the new state with the requests it sent, in order. The \<open>finally\<close> clauses run on
  every path. The pieces between the awaits follow further down.
\<close>

record admin =
  passwordInput :: string
  adminPassword :: string
  photos :: jsval
  selectedIds :: "jsval list"
  statusMessage :: string
  errorMessage :: jsval
  shareDetails :: jsval
  uploading :: bool
  deleting :: bool
  generating :: bool
  sessionStorage :: "string \<rightharpoonup> string"

definition storage_key :: string where
  "storage_key = ''alienshot-admin-password''"

text \<open>The initial values of the refs; \<open>getItem\<close> answers \<open>null\<close> for a missing key.\<close>

definition admin_setup :: "(string \<rightharpoonup> string) \<Rightarrow> admin" where
  "admin_setup storage =
     \<lparr> passwordInput = [],
       adminPassword = (case storage storage_key of None \<Rightarrow> [] | Some v \<Rightarrow> v),
       photos = Arr [],
       selectedIds = [],
       statusMessage = [],
       errorMessage = Str [],
       shareDetails = Null,
       uploading = False,
       deleting = False,
       generating = False,
       sessionStorage = storage \<rparr>"

definition isUnlocked :: "admin \<Rightarrow> bool" where
  "isUnlocked st = (adminPassword st \<noteq> [])"

definition selectionCount :: "admin \<Rightarrow> nat" where
  "selectionCount st = length (admin.selectedIds st)"

definition persistPassword :: "admin \<Rightarrow> admin" where
  "persistPassword st =
     (if adminPassword st \<noteq> []
      then st\<lparr>sessionStorage := (sessionStorage st)(storage_key \<mapsto> adminPassword st)\<rparr>
      else st)"

definition handleError :: "error \<Rightarrow> admin \<Rightarrow> admin" where
  "handleError e st =
     (if (case error_response e of Some r \<Rightarrow> status r = 403 | None \<Rightarrow> False)
      then st\<lparr>admin.errorMessage := Str ''Mot de passe invalide.'',
              adminPassword := [],
              sessionStorage := (sessionStorage st)(storage_key := None)\<rparr>
      else st\<lparr>admin.errorMessage :=
                js_coalesce (error_response_data e) (Str ''Erreur inattendue'')\<rparr>)"

definition fetchPhotos :: "outcome \<Rightarrow> admin \<Rightarrow> admin \<times> request list" where
  "fetchPhotos oc st =
     (if adminPassword st = [] then (st, [])
      else
        let req = \<lparr> req_method = GET, req_path = ''/photos'',
                    req_headers = adminHeaders (adminPassword st),
                    req_body = NoBody, req_responseType = None \<rparr>
        in case oc of
             Rejected r \<Rightarrow> (handleError (AxiosError r) st, [req])
           | Resolved r \<Rightarrow>
               let st1 = st\<lparr>admin.photos := data r, admin.selectedIds := []\<rparr>
               in (case get_prop (admin.photos st1) ''length'' of
                     Inl e \<Rightarrow> (handleError e st1, [req])
                   | Inr n \<Rightarrow>
                       (st1\<lparr>statusMessage :=
                               ''Charg'' @ [CHR 0xE9] @ '' ('' @ to_string n @ '' photos)'',
                             admin.errorMessage := Str []\<rparr>,
                        [req])))"

text \<open>
  JavaScript's \<open>trim\<close>: white space and line terminators below code unit 256 are tab,
  line feed, vertical tab, form feed, carriage return, space and no-break space.
\<close>

definition js_space :: "char \<Rightarrow> bool" where
  "js_space c = (c \<in> set [CHR 0x09, CHR 0x0A, CHR 0x0B, CHR 0x0C, CHR 0x0D, CHR 0x20, CHR 0xA0])"

definition js_trim :: "string \<Rightarrow> string" where
  "js_trim s = rev (dropWhile js_space (rev (dropWhile js_space s)))"

definition unlock :: "outcome \<Rightarrow> admin \<Rightarrow> admin \<times> request list" where
  "unlock oc st =
     (if js_trim (passwordInput st) = []
      then (st\<lparr>admin.errorMessage := Str ''Merci de saisir le mot de passe admin.''\<rparr>, [])
      else fetchPhotos oc (persistPassword (st\<lparr>adminPassword := js_trim (passwordInput st)\<rparr>)))"

text \<open>
  \<open>files\<close> is \<open>Array.from(event.target.files || [])\<close>; the first outcome is the
  upload's, the second the listing's that follows a successful upload. Clearing the
  file input in \<open>finally\<close> touches no ref and is left out.
\<close>

definition handleUpload :: "blob list \<Rightarrow> outcome \<Rightarrow> outcome \<Rightarrow> admin \<Rightarrow> admin \<times> request list" where
  "handleUpload files oc1 oc2 st =
     (if files = [] \<or> adminPassword st = [] then (st, [])
      else
        let st1 = st\<lparr>uploading := True\<rparr>;
            req = \<lparr> req_method = POST, req_path = ''/images/add'',
                    req_headers = adminHeaders (adminPassword st1)
                                  @ [(''Content-Type'', ''multipart/form-data'')],
                    req_body = FormData (map (\<lambda>f. (''photos'', f)) files),
                    req_responseType = None \<rparr>
        in case oc1 of
             Rejected r \<Rightarrow> ((handleError (AxiosError r) st1)\<lparr>uploading := False\<rparr>, [req])
           | Resolved r \<Rightarrow>
               let st2 = st1\<lparr>statusMessage :=
                               digits (length files) @ '' photo(s) import'' @ [CHR 0xE9] @ ''es''\<rparr>;
                   (st3, reqs) = fetchPhotos oc2 st2
               in (st3\<lparr>uploading := False\<rparr>, req # reqs))"

definition admin_toggleSelection :: "jsval \<Rightarrow> admin \<Rightarrow> admin" where
  "admin_toggleSelection ident st =
     (if ident \<in> set (admin.selectedIds st)
      then st\<lparr>admin.selectedIds := filter (\<lambda>v. v \<noteq> ident) (admin.selectedIds st)\<rparr>
      else st\<lparr>admin.selectedIds := admin.selectedIds st @ [ident]\<rparr>)"

definition deleteSelected :: "outcome \<Rightarrow> outcome \<Rightarrow> admin \<Rightarrow> admin \<times> request list" where
  "deleteSelected oc1 oc2 st =
     (if selectionCount st = 0 then (st, [])
      else
        let st1 = st\<lparr>deleting := True\<rparr>;
            req = \<lparr> req_method = DELETE, req_path = ''/photos'',
                    req_headers = adminHeaders (adminPassword st1),
                    req_body = Json (Obj [(''photo_ids'', Arr (admin.selectedIds st1))]),
                    req_responseType = None \<rparr>
        in case oc1 of
             Rejected r \<Rightarrow> ((handleError (AxiosError r) st1)\<lparr>deleting := False\<rparr>, [req])
           | Resolved r \<Rightarrow>
               let st2 = st1\<lparr>statusMessage := ''Photos supprim'' @ [CHR 0xE9] @ ''es'',
                              shareDetails := Null\<rparr>;
                   (st3, reqs) = fetchPhotos oc2 st2
               in (st3\<lparr>deleting := False\<rparr>, req # reqs))"

definition generateShare :: "outcome \<Rightarrow> admin \<Rightarrow> admin \<times> request list" where
  "generateShare oc st =
     (if selectionCount st = 0 then (st, [])
      else
        let st1 = st\<lparr>generating := True\<rparr>;
            req = \<lparr> req_method = POST, req_path = ''/shares'',
                    req_headers = adminHeaders (adminPassword st1),
                    req_body = Json (Obj [(''photo_ids'', Arr (admin.selectedIds st1))]),
                    req_responseType = None \<rparr>
        in case oc of
             Rejected r \<Rightarrow> ((handleError (AxiosError r) st1)\<lparr>generating := False\<rparr>, [req])
           | Resolved r \<Rightarrow>
               (st1\<lparr>shareDetails := data r,
                     statusMessage := ''Lien de partage cr'' @ [CHR 0xE9, CHR 0xE9],
                     generating := False\<rparr>,
                [req]))"

text \<open>\<open>buildPhotoSrc\<close>: reading \<open>photo.id\<close> throws when the photo is \<open>null\<close>.\<close>

definition admin_buildPhotoSrc ::
  "((string \<times> string) list \<Rightarrow> string) \<Rightarrow> string option \<Rightarrow> admin \<Rightarrow> jsval \<Rightarrow> error + string" where
  "admin_buildPhotoSrc ser env st photo =
     (if adminPassword st = [] then Inr []
      else case get_prop photo ''id'' of
             Inl e \<Rightarrow> Inl e
           | Inr i \<Rightarrow> Inr (photoFileUrl ser env i (adminPassword st)))"

text \<open>\<open>onMounted\<close>: the listing is fetched when a secret was found in the storage.\<close>

definition admin_mounted :: "outcome \<Rightarrow> admin \<Rightarrow> admin \<times> request list" where
  "admin_mounted oc st = (if adminPassword st \<noteq> [] then fetchPhotos oc st else (st, []))"

text \<open>
  The share card of the template (\<open>section v-if="shareDetails"\<close>): what it shows of
  \<open>shareDetails\<close>, in the order the template reads it. \<open>Inr None\<close> is no card; a
  throwing read fails the render.
\<close>

record share_card =
  card_token :: jsval
  card_href :: jsval
  card_link_text :: jsval
  card_qr_value :: jsval
  card_photo_count :: jsval

definition render_share_card :: "admin \<Rightarrow> error + share_card option" where
  "render_share_card st =
     (if \<not> truthy (shareDetails st) then Inr None
      else case get_prop (shareDetails st) ''token'' of
        Inl e \<Rightarrow> Inl e
      | Inr tok \<Rightarrow>
          (case get_prop (shareDetails st) ''share_url'' of
             Inl e \<Rightarrow> Inl e
           | Inr url \<Rightarrow>
               (case get_prop (shareDetails st) ''photos'' of
                  Inl e \<Rightarrow> Inl e
                | Inr ps \<Rightarrow>
                    (case get_prop ps ''length'' of
                       Inl e \<Rightarrow> Inl e
                     | Inr n \<Rightarrow>
                         Inr (Some \<lparr> card_token = tok, card_href = url,
                                     card_link_text = url, card_qr_value = url,
                                     card_photo_count = n \<rparr>)))))"

text \<open>
  The error paragraph of the template (\<open>p v-if="errorMessage"\<close>): the message it
  shows, if it is rendered.
\<close>

definition error_paragraph :: "admin \<Rightarrow> jsval option" where
  "error_paragraph st =
     (if truthy (admin.errorMessage st) then Some (admin.errorMessage st) else None)"

subsection \<open>The handlers at their awaits\<close>

text \<open>
  Other handlers can run while a handler awaits its answer, so \<open>fetchPhotos\<close>,
  \<open>generateShare\<close> and \<open>deleteSelected\<close> are also given in the pieces between their
  awaits. \<open>_begin\<close> runs up to the request (no request when the guard returns);
  \<open>_settle\<close> runs from the answer on. \<open>deleteSelected\<close> awaits twice: after a
  successful answer \<open>deleteSelected_settle\<close> calls \<open>fetchPhotos\<close> up to its request, and
  \<open>deleteSelected_finish\<close> runs from the listing's answer to the end of \<open>finally\<close>.
\<close>

definition fetchPhotos_begin :: "admin \<Rightarrow> request option" where
  "fetchPhotos_begin st =
     (if adminPassword st = [] then None
      else Some \<lparr> req_method = GET, req_path = ''/photos'',
                  req_headers = adminHeaders (adminPassword st),
                  req_body = NoBody, req_responseType = None \<rparr>)"

definition fetchPhotos_settle :: "outcome \<Rightarrow> admin \<Rightarrow> admin" where
  "fetchPhotos_settle oc st =
     (case oc of
        Rejected r \<Rightarrow> handleError (AxiosError r) st
      | Resolved r \<Rightarrow>
          let st1 = st\<lparr>admin.photos := data r, admin.selectedIds := []\<rparr>
          in (case get_prop (admin.photos st1) ''length'' of
                Inl e \<Rightarrow> handleError e st1
              | Inr n \<Rightarrow>
                  st1\<lparr>statusMessage :=
                          ''Charg'' @ [CHR 0xE9] @ '' ('' @ to_string n @ '' photos)'',
                        admin.errorMessage := Str []\<rparr>))"

definition generateShare_begin :: "admin \<Rightarrow> admin \<times> request option" where
  "generateShare_begin st =
     (if selectionCount st = 0 then (st, None)
      else (st\<lparr>generating := True\<rparr>,
            Some \<lparr> req_method = POST, req_path = ''/shares'',
                   req_headers = adminHeaders (adminPassword st),
                   req_body = Json (Obj [(''photo_ids'', Arr (admin.selectedIds st))]),
                   req_responseType = None \<rparr>))"

definition generateShare_settle :: "outcome \<Rightarrow> admin \<Rightarrow> admin" where
  "generateShare_settle oc st =
     (case oc of
        Rejected r \<Rightarrow> (handleError (AxiosError r) st)\<lparr>generating := False\<rparr>
      | Resolved r \<Rightarrow>
          st\<lparr>shareDetails := data r,
             statusMessage := ''Lien de partage cr'' @ [CHR 0xE9, CHR 0xE9],
             generating := False\<rparr>)"

definition deleteSelected_begin :: "admin \<Rightarrow> admin \<times> request option" where
  "deleteSelected_begin st =
     (if selectionCount st = 0 then (st, None)
      else (st\<lparr>deleting := True\<rparr>,
            Some \<lparr> req_method = DELETE, req_path = ''/photos'',
                   req_headers = adminHeaders (adminPassword st),
                   req_body = Json (Obj [(''photo_ids'', Arr (admin.selectedIds st))]),
                   req_responseType = None \<rparr>))"

definition deleteSelected_settle :: "outcome \<Rightarrow> admin \<Rightarrow> admin \<times> request option" where
  "deleteSelected_settle oc st =
     (case oc of
        Rejected r \<Rightarrow> ((handleError (AxiosError r) st)\<lparr>deleting := False\<rparr>, None)
      | Resolved r \<Rightarrow>
          let st2 = st\<lparr>statusMessage := ''Photos supprim'' @ [CHR 0xE9] @ ''es'',
                       shareDetails := Null\<rparr>
          in (case fetchPhotos_begin st2 of
                None \<Rightarrow> (st2\<lparr>deleting := False\<rparr>, None)
              | Some req \<Rightarrow> (st2, Some req)))"

definition deleteSelected_finish :: "outcome \<Rightarrow> admin \<Rightarrow> admin" where
  "deleteSelected_finish oc st = (fetchPhotos_settle oc st)\<lparr>deleting := False\<rparr>"

text \<open>
  The ids of the photos the rendered share card stands for: those of \<open>photos\<close> in
  \<open>shareDetails\<close>, when the card is rendered.
\<close>

definition preview_ids :: "admin \<Rightarrow> jsval list" where
  "preview_ids st =
     (case render_share_card st of
        Inr (Some c) \<Rightarrow>
          (case get_prop (shareDetails st) ''photos'' of
             Inr (Arr xs) \<Rightarrow>
               concat (map (\<lambda>p. case get_prop p ''id'' of Inl e \<Rightarrow> [] | Inr i \<Rightarrow> [i]) xs)
           | _ \<Rightarrow> [])
      | _ \<Rightarrow> [])"

section \<open>views/ShareView.vue\<close>

text \<open>
  The public view has the route's \<open>token\<close> as its prop and five refs. It never reads
  \<open>sessionStorage\<close> and has no secret in its state. Its two asynchronous functions are
  given in two halves, split at the \<open>await\<close>: \<open>_begin\<close> runs up to the request,
  \<open>_settle\<close> from the answer on, so that other handlers can run in between.
\<close>

record share =
  token :: string
  photos :: jsval
  selectedIds :: "jsval list"
  loading :: bool
  errorMessage :: jsval
  shareDate :: jsval

definition share_setup :: "string \<Rightarrow> share" where
  "share_setup t =
     \<lparr> token = t, photos = Arr [], selectedIds = [], loading = True,
       errorMessage = Str [], shareDate = Str [] \<rparr>"

definition fetchShare_begin :: "share \<Rightarrow> share \<times> request" where
  "fetchShare_begin st =
     (st\<lparr>loading := True, errorMessage := Str []\<rparr>,
      \<lparr> req_method = GET, req_path = ''/shares/'' @ token st, req_headers = [],
        req_body = NoBody, req_responseType = None \<rparr>)"

definition fetchShare_catch :: "error \<Rightarrow> share \<Rightarrow> share" where
  "fetchShare_catch e st =
     st\<lparr>errorMessage := js_or (error_response_data e) (Str ''Partage introuvable.'')\<rparr>"

definition fetchShare_settle :: "outcome \<Rightarrow> share \<Rightarrow> share" where
  "fetchShare_settle oc st =
     (let st' =
        (case oc of
           Rejected r \<Rightarrow> fetchShare_catch (AxiosError r) st
         | Resolved r \<Rightarrow>
             (case get_prop (data r) ''photos'' of
                Inl e \<Rightarrow> fetchShare_catch e st
              | Inr ps \<Rightarrow>
                  (case get_prop (data r) ''created_at'' of
                     Inl e \<Rightarrow> fetchShare_catch e (st\<lparr>photos := ps\<rparr>)
                   | Inr d \<Rightarrow> st\<lparr>photos := ps, shareDate := d, selectedIds := []\<rparr>)))
      in st'\<lparr>loading := False\<rparr>)"

definition fetchShare :: "outcome \<Rightarrow> share \<Rightarrow> share \<times> request list" where
  "fetchShare oc st =
     (let (st1, req) = fetchShare_begin st in (fetchShare_settle oc st1, [req]))"

definition share_toggleSelection :: "jsval \<Rightarrow> share \<Rightarrow> share" where
  "share_toggleSelection ident st =
     (if ident \<in> set (selectedIds st)
      then st\<lparr>selectedIds := filter (\<lambda>v. v \<noteq> ident) (selectedIds st)\<rparr>
      else st\<lparr>selectedIds := selectedIds st @ [ident]\<rparr>)"

definition share_buildPhotoSrc :: "string option \<Rightarrow> share \<Rightarrow> jsval \<Rightarrow> error + string" where
  "share_buildPhotoSrc env st photo =
     (case get_prop photo ''id'' of
        Inl e \<Rightarrow> Inl e
      | Inr i \<Rightarrow> Inr (shareFileUrl env (token st) i))"

text \<open>
  \<open>downloadPhotos\<close> up to its request. The guard reads \<open>photos.value.length\<close> outside
  the \<open>try\<close>: a throw there rejects the returned promise (\<open>Inl\<close>), and a falsy length
  returns without a request (\<open>Inr None\<close>). Neither changes a ref.
\<close>

definition downloadPhotos_begin :: "jsval list \<Rightarrow> share \<Rightarrow> error + request option" where
  "downloadPhotos_begin photoIds st =
     (case get_prop (photos st) ''length'' of
        Inl e \<Rightarrow> Inl e
      | Inr n \<Rightarrow>
          if \<not> truthy n then Inr None
          else Inr (Some
            \<lparr> req_method = POST, req_path = ''/shares/'' @ token st @ ''/download'',
              req_headers = [],
              req_body = Json (if photoIds \<noteq> [] then Obj [(''photo_ids'', Arr photoIds)]
                               else Obj []),
              req_responseType = Some ''blob'' \<rparr>))"

text \<open>
  From the answer on: a success saves the body under \<open>alienshot-<token>.zip\<close> through a
  temporary anchor (the second component), a failure sets the error message.
\<close>

definition downloadPhotos_settle :: "outcome \<Rightarrow> share \<Rightarrow> share \<times> (string \<times> jsval) option" where
  "downloadPhotos_settle oc st =
     (case oc of
        Resolved r \<Rightarrow> (st, Some (''alienshot-'' @ token st @ ''.zip'', data r))
      | Rejected r \<Rightarrow>
          (st\<lparr>errorMessage :=
                js_or (error_response_data (AxiosError r))
                  (Str (''T'' @ [CHR 0xE9] @ ''l'' @ [CHR 0xE9] @ ''chargement impossible.''))\<rparr>,
           None))"

definition downloadPhotos :: "jsval list \<Rightarrow> outcome \<Rightarrow> share \<Rightarrow> share \<times> request list" where
  "downloadPhotos photoIds oc st =
     (case downloadPhotos_begin photoIds st of
        Inl e \<Rightarrow> (st, [])
      | Inr None \<Rightarrow> (st, [])
      | Inr (Some req) \<Rightarrow> (fst (downloadPhotos_settle oc st), [req]))"

definition downloadSelected_begin :: "share \<Rightarrow> error + request option" where
  "downloadSelected_begin st =
     (if selectedIds st = [] then Inr None else downloadPhotos_begin (selectedIds st) st)"

definition downloadAll_begin :: "share \<Rightarrow> error + request option" where
  "downloadAll_begin st = downloadPhotos_begin [] st"

definition downloadSelected :: "outcome \<Rightarrow> share \<Rightarrow> share \<times> request list" where
  "downloadSelected oc st =
     (if selectedIds st = [] then (st, []) else downloadPhotos (selectedIds st) oc st)"

definition downloadAll :: "outcome \<Rightarrow> share \<Rightarrow> share \<times> request list" where
  "downloadAll oc st = downloadPhotos [] oc st"

subsection \<open>The template and components/PhotoGrid.vue\<close>

text \<open>
  \<open>PhotoGrid\<close> shows the empty state when \<open>photos.length\<close> is falsy and otherwise one
  card per item of \<open>v-for="photo in photos"\<close>. \<open>v-for\<close> takes the elements of an array,
  the code units of a string, the numbers \<open>1..n\<close> of a number \<open>n\<close> and the property values
  of an object, and nothing of any other value; the prop is declared an \<open>Array\<close>, which
  stops none of them. The checkbox of a card emits \<open>toggle\<close> with \<open>photo.id\<close>.

  \<open>toggle_ids\<close> are the ids the cards of a photo list can emit. A card whose \<open>photo.id\<close>
  throws is left out: the render fails there and the grid shows fewer cards, never
  other ones. The share view mounts the grid under \<open>!loading && !errorMessage\<close> and the
  download buttons under \<open>photos.length\<close>; the selection button is disabled while
  nothing is selected.
\<close>

text \<open>
  The values of an object's properties: a key listed twice counts once, with the value
  a read of the key gives.
\<close>

definition obj_values :: "(string \<times> jsval) list \<Rightarrow> jsval list" where
  "obj_values kvs = map snd (filter (\<lambda>kv. map_of kvs (fst kv) = Some (snd kv)) kvs)"

fun v_for :: "jsval \<Rightarrow> jsval list" where
  "v_for (Arr xs) = xs"
| "v_for (Str s) = map (\<lambda>c. Str [c]) s"
| "v_for (Num n) = map Num [1..n]"
| "v_for (Obj kvs) = obj_values kvs"
| "v_for Undefined = []"
| "v_for Null = []"
| "v_for (Bool b) = []"

definition photo_cards :: "jsval \<Rightarrow> jsval list" where
  "photo_cards ps =
     (case get_prop ps ''length'' of
        Inl e \<Rightarrow> []
      | Inr n \<Rightarrow> if \<not> truthy n then [] else v_for ps)"

definition toggle_ids :: "jsval \<Rightarrow> jsval list" where
  "toggle_ids ps =
     concat (map (\<lambda>p. case get_prop p ''id'' of Inl e \<Rightarrow> [] | Inr i \<Rightarrow> [i]) (photo_cards ps))"

definition grid_visible :: "share \<Rightarrow> bool" where
  "grid_visible st = (\<not> loading st \<and> \<not> truthy (errorMessage st))"

definition toolbar_visible :: "share \<Rightarrow> bool" where
  "toolbar_visible st =
     (case get_prop (photos st) ''length'' of Inl e \<Rightarrow> False | Inr n \<Rightarrow> truthy n)"

subsection \<open>The view as a transition system\<close>

text \<open>
  What can happen to a mounted share view: the route changes the token (the \<open>watch\<close>
  calls \<open>fetchShare\<close> when the value differs), the visitor ticks a card or presses a
  download button, or one of the requests in flight is answered. The system keeps the
  calls in flight and a history of every call and answer; a call is recorded with the
  token it was made for.
\<close>

datatype call = FetchShare | DownloadPhotos

type_synonym pending = "call \<times> string \<times> request"

record system =
  view :: share
  inflight :: "pending list"
  sent :: "pending list"
  answered :: "(pending \<times> outcome) list"

datatype event =
    SetToken string
  | Toggle jsval
  | ClickDownloadSelected
  | ClickDownloadAll
  | Settle nat outcome

definition start_fetch :: "system \<Rightarrow> system" where
  "start_fetch sys =
     (let (v, req) = fetchShare_begin (view sys);
          p = (FetchShare, token v, req)
      in sys\<lparr>view := v, inflight := inflight sys @ [p], sent := sent sys @ [p]\<rparr>)"

definition start_download :: "error + request option \<Rightarrow> system \<Rightarrow> system" where
  "start_download res sys =
     (case res of
        Inr (Some req) \<Rightarrow>
          (let p = (DownloadPhotos, token (view sys), req)
           in sys\<lparr>inflight := inflight sys @ [p], sent := sent sys @ [p]\<rparr>)
      | _ \<Rightarrow> sys)"

text \<open>\<open>onMounted(fetchShare)\<close> on the freshly set up view.\<close>

definition mount :: "string \<Rightarrow> system" where
  "mount t = start_fetch \<lparr> view = share_setup t, inflight = [], sent = [], answered = [] \<rparr>"

definition settle :: "pending \<Rightarrow> outcome \<Rightarrow> share \<Rightarrow> share" where
  "settle p oc st =
     (case fst p of
        FetchShare \<Rightarrow> fetchShare_settle oc st
      | DownloadPhotos \<Rightarrow> fst (downloadPhotos_settle oc st))"

fun step :: "event \<Rightarrow> system \<Rightarrow> system" where
  "step (SetToken t) sys =
     (if t = token (view sys) then sys
      else start_fetch (sys\<lparr>view := (view sys)\<lparr>token := t\<rparr>\<rparr>))"
| "step (Toggle i) sys =
     (if grid_visible (view sys) \<and> i \<in> set (toggle_ids (photos (view sys)))
      then sys\<lparr>view := share_toggleSelection i (view sys)\<rparr>
      else sys)"
| "step ClickDownloadSelected sys =
     (if toolbar_visible (view sys) \<and> selectedIds (view sys) \<noteq> []
      then start_download (downloadSelected_begin (view sys)) sys
      else sys)"
| "step ClickDownloadAll sys =
     (if toolbar_visible (view sys)
      then start_download (downloadAll_begin (view sys)) sys
      else sys)"
| "step (Settle n oc) sys =
     (if n < length (inflight sys)
      then sys\<lparr>view := settle (inflight sys ! n) oc (view sys),
               inflight := take n (inflight sys) @ drop (Suc n) (inflight sys),
               answered := answered sys @ [(inflight sys ! n, oc)]\<rparr>
      else sys)"

definition run :: "event list \<Rightarrow> system \<Rightarrow> system" where
  "run es sys = foldl (\<lambda>s e. step e s) sys es"

text \<open>The ids a download request names in its body.\<close>

definition body_ids :: "request \<Rightarrow> jsval list" where
  "body_ids r =
     (case req_body r of
        Json (Obj kvs) \<Rightarrow> (case map_of kvs ''photo_ids'' of Some (Arr ids) \<Rightarrow> ids | _ \<Rightarrow> [])
      | _ \<Rightarrow> [])"

text \<open>
  The photo ids an answer to \<open>GET /shares/{token}\<close> listed, and the ids the answers
  recorded in a history listed: for one token, and for any token.
\<close>

definition listed_ids :: "outcome \<Rightarrow> jsval list" where
  "listed_ids oc =
     (case oc of
        Resolved r \<Rightarrow> (case get_prop (data r) ''photos'' of Inl e \<Rightarrow> [] | Inr ps \<Rightarrow> toggle_ids ps)
      | Rejected r \<Rightarrow> [])"


definition received_ids :: "system \<Rightarrow> jsval list" where
  "received_ids sys =
     concat (map (\<lambda>(p, oc). listed_ids oc)
       (filter (\<lambda>(p, oc). fst p = FetchShare) (answered sys)))"

definition downloads_sent :: "system \<Rightarrow> pending list" where
  "downloads_sent sys = filter (\<lambda>p. fst p = DownloadPhotos) (sent sys)"


definition selection_inv :: "share \<Rightarrow> bool" where
  "selection_inv st = (set (selectedIds st) \<subseteq> set (toggle_ids (photos st)))"

section \<open>The Share Service's creation\<close>

text \<open>
  Modelled from the spec: the backend that serves \<open>POST /shares\<close> is not among the
  sources, so \<open>create\<close> of the Share Service is written here from the specification's
  words. The store holds the ids of the photo rows and the share rows (a token with its
  bound ids). \<open>create\<close> is admin-authenticated, refuses an empty id set, validates that
  every id exists and fails as a whole when one is missing; otherwise it persists one
  share row under a fresh token and returns the token with the photo list. The token
  comes from a random source: it is a parameter. The store after the call is returned
  on every path.
\<close>

record store =
  photo_rows :: "jsval list"
  share_rows :: "(string \<times> jsval list) list"

datatype service_error = Unauthorized | InvalidRequest | MissingPhoto

definition create_share ::
  "string \<Rightarrow> string \<Rightarrow> string \<Rightarrow> jsval list \<Rightarrow> store
     \<Rightarrow> (service_error + string \<times> jsval list) \<times> store" where
  "create_share secret presented fresh ids db =
     (if presented \<noteq> secret then (Inl Unauthorized, db)
      else if ids = [] then (Inl InvalidRequest, db)
      else if list_ex (\<lambda>i. i \<notin> set (photo_rows db)) ids then (Inl MissingPhoto, db)
      else (Inr (fresh, ids), db\<lparr>share_rows := share_rows db @ [(fresh, ids)]\<rparr>))"

text \<open>Whether some share row of the store is bound to the photo id.\<close>

definition referenced :: "jsval \<Rightarrow> store \<Rightarrow> bool" where
  "referenced i db = list_ex (\<lambda>row. i \<in> set (snd row)) (share_rows db)"

text \<open>Whether a JSON object body has the field.\<close>

definition has_field :: "body \<Rightarrow> string \<Rightarrow> bool" where
  "has_field b k = (case b of Json (Obj kvs) \<Rightarrow> k \<in> set (map fst kvs) | _ \<Rightarrow> False)"

section \<open>Predicates of the statements\<close>

text \<open>
  An outcome is the unauthorized signal when the request was rejected with an answer of
  status 403, the test \<open>handleError\<close> makes.
\<close>

definition unauthorized :: "outcome \<Rightarrow> bool" where
  "unauthorized oc = (case oc of Rejected (Some r) \<Rightarrow> status r = 403 | _ \<Rightarrow> False)"

definition resolved :: "outcome \<Rightarrow> bool" where
  "resolved oc = (case oc of Resolved r \<Rightarrow> True | Rejected r \<Rightarrow> False)"

text \<open>
  The two requests of the public view, for a token: resolving the share, and
  downloading the ids the body names (none named is an empty object).
\<close>

definition resolve_request :: "string \<Rightarrow> request" where
  "resolve_request t =
     \<lparr> req_method = GET, req_path = ''/shares/'' @ t, req_headers = [],
       req_body = NoBody, req_responseType = None \<rparr>"

definition download_request :: "string \<Rightarrow> jsval list \<Rightarrow> request" where
  "download_request t ids =
     \<lparr> req_method = POST, req_path = ''/shares/'' @ t @ ''/download'', req_headers = [],
       req_body = Json (if ids \<noteq> [] then Obj [(''photo_ids'', Arr ids)] else Obj []),
       req_responseType = Some ''blob'' \<rparr>"

definition public_call :: "pending \<Rightarrow> bool" where
  "public_call p =
     (case p of
        (FetchShare, t, r) \<Rightarrow> r = resolve_request t
      | (DownloadPhotos, t, r) \<Rightarrow> r = download_request t (body_ids r))"



text \<open>
  The invariant of the share view's transition system: the selection is among the ids
  of the photo list held; these ids were listed by an answer received; every download
  sent names ids received; every call sent is one of the two public requests.
\<close>

definition sys_inv :: "system \<Rightarrow> bool" where
  "sys_inv sys =
     (selection_inv (view sys)
      \<and> set (toggle_ids (photos (view sys))) \<subseteq> set (received_ids sys)
      \<and> list_all (\<lambda>p. set (body_ids (snd (snd p))) \<subseteq> set (received_ids sys))
           (downloads_sent sys)
      \<and> list_all public_call (sent sys))"

section \<open>Properties of the selection toggle\<close>

text \<open>
  C9. \<open>toggleSelection\<close> flips the membership of its id: it removes every occurrence of
  the id when the id is selected and appends it otherwise; it changes no other ref and
  the membership of no other id; two applications in a row restore the set of selected
  ids. The admin view and the share view compute the same selection from the same
  selection.
\<close>

theorem toggleSelection_involution:
  "selectedIds (share_toggleSelection i st) =
     (if i \<in> set (selectedIds st) then filter (\<lambda>v. v \<noteq> i) (selectedIds st)
      else selectedIds st @ [i])
   \<and> share_toggleSelection i st = st\<lparr>selectedIds := selectedIds (share_toggleSelection i st)\<rparr>
   \<and> (i \<in> set (selectedIds (share_toggleSelection i st))) = (i \<notin> set (selectedIds st))
   \<and> (j \<noteq> i \<longrightarrow>
        (j \<in> set (selectedIds (share_toggleSelection i st))) = (j \<in> set (selectedIds st)))
   \<and> set (selectedIds (share_toggleSelection i (share_toggleSelection i st)))
        = set (selectedIds st)
   \<and> admin_toggleSelection i a
        = a\<lparr>admin.selectedIds := admin.selectedIds (admin_toggleSelection i a)\<rparr>
   \<and> (admin.selectedIds a = selectedIds st \<longrightarrow>
        admin.selectedIds (admin_toggleSelection i a)
          = selectedIds (share_toggleSelection i st))"
proof -
  have other: "j \<noteq> i \<Longrightarrow>
      (j \<in> set (selectedIds (share_toggleSelection i st))) = (j \<in> set (selectedIds st))"
    by (auto simp add: share_toggleSelection_def)
  have twice: "set (selectedIds (share_toggleSelection i (share_toggleSelection i st)))
      = set (selectedIds st)"
    by (auto simp add: share_toggleSelection_def)
  show ?thesis
    using other twice by (simp add: share_toggleSelection_def admin_toggleSelection_def)
qed

theorem toggleSelection_involution_witness:
  "selectedIds (share_toggleSelection (Num 1) ((share_setup ''t'')\<lparr>selectedIds := [Num 1, Num 2, Num 1]\<rparr>))
     = [Num 2]
   \<and> Num 2 \<in> set (selectedIds (share_toggleSelection (Num 1)
        ((share_setup ''t'')\<lparr>selectedIds := [Num 1, Num 2, Num 1]\<rparr>)))
   \<and> admin.selectedIds (admin_toggleSelection (Num 1)
        ((admin_setup Map.empty)\<lparr>admin.selectedIds := [Num 1, Num 2, Num 1]\<rparr>)) = [Num 2]"
  using toggleSelection_involution
    [of "Num 1" "(share_setup ''t'')\<lparr>selectedIds := [Num 1, Num 2, Num 1]\<rparr>" "Num 2"
        "(admin_setup Map.empty)\<lparr>admin.selectedIds := [Num 1, Num 2, Num 1]\<rparr>"]
  by (simp add: share_setup_def admin_setup_def)

section \<open>Property reads\<close>

lemma get_prop_throws: "get_prop v k = Inl e \<Longrightarrow> e = TypeError \<and> nullish v"
  by (cases v) (auto simp add: nullish_def split: if_splits option.splits)

lemma get_prop_throws_all: "get_prop v k = Inl e \<Longrightarrow> get_prop v k' = Inr x \<Longrightarrow> False"
  by (cases v) (auto split: if_splits option.splits)

section \<open>Properties of the share view\<close>

lemma fetchShare_settle_rejected:
  "fetchShare_settle (Rejected x) st =
     st\<lparr>errorMessage := js_or (error_response_data (AxiosError x)) (Str ''Partage introuvable.''),
        loading := False\<rparr>"
  by (simp add: fetchShare_settle_def fetchShare_catch_def)

lemma fetchShare_settle_nullish:
  "nullish (data r) \<Longrightarrow>
   fetchShare_settle (Resolved r) st =
     st\<lparr>errorMessage := Str ''Partage introuvable.'', loading := False\<rparr>"
  by (auto simp add: fetchShare_settle_def fetchShare_catch_def nullish_def js_or_def
      error_response_data_def)

lemma fetchShare_settle_fields:
  "get_prop (data r) ''photos'' = Inr ps \<Longrightarrow> get_prop (data r) ''created_at'' = Inr d \<Longrightarrow>
   fetchShare_settle (Resolved r) st =
     st\<lparr>photos := ps, shareDate := d, selectedIds := [], loading := False\<rparr>"
  by (simp add: fetchShare_settle_def)

lemma fetchShare_settle_only_fields:
  "get_prop (data r) ''photos'' = get_prop (data r') ''photos'' \<Longrightarrow>
   get_prop (data r) ''created_at'' = get_prop (data r') ''created_at'' \<Longrightarrow>
   fetchShare_settle (Resolved r) st = fetchShare_settle (Resolved r') st"
  by (auto simp add: fetchShare_settle_def split: sum.split)

lemma fetchShare_settle_selection:
  "selection_inv st \<Longrightarrow> selection_inv (fetchShare_settle oc st)"
  by (auto simp add: fetchShare_settle_def fetchShare_catch_def selection_inv_def
      split: outcome.split sum.split dest: get_prop_throws_all)

lemma fetchShare_settle_photos:
  "photos (fetchShare_settle oc st) = photos st
   \<or> set (toggle_ids (photos (fetchShare_settle oc st))) \<subseteq> set (listed_ids oc)"
  by (auto simp add: fetchShare_settle_def fetchShare_catch_def listed_ids_def
      split: outcome.split sum.split dest: get_prop_throws_all)

lemma js_or_truthy: "truthy b \<Longrightarrow> truthy (js_or a b)"
  by (simp add: js_or_def)

lemma downloadPhotos_settle_frame:
  "photos (fst (downloadPhotos_settle oc st)) = photos st"
  "selectedIds (fst (downloadPhotos_settle oc st)) = selectedIds st"
  "token (fst (downloadPhotos_settle oc st)) = token st"
  by (simp_all add: downloadPhotos_settle_def split: outcome.split)

lemma body_ids_download_request: "body_ids (download_request t ids) = ids"
  by (simp add: body_ids_def download_request_def)

lemma downloadPhotos_begin_sends:
  "downloadPhotos_begin ids st =
     (case get_prop (photos st) ''length'' of
        Inl e \<Rightarrow> Inl e
      | Inr n \<Rightarrow> if toolbar_visible st then Inr (Some (download_request (token st) ids))
                else Inr None)"
  by (auto simp add: downloadPhotos_begin_def toolbar_visible_def download_request_def
      split: sum.splits)

lemma downloadPhotos_begin_request:
  "downloadPhotos_begin ids st = Inr (Some r) \<Longrightarrow> r = download_request (token st) ids"
  by (auto simp add: downloadPhotos_begin_sends split: sum.splits if_splits)

lemma downloadPhotos_sent:
  "snd (downloadPhotos ids oc st) =
     (if toolbar_visible st then [download_request (token st) ids] else [])"
  by (auto simp add: downloadPhotos_def downloadPhotos_begin_sends toolbar_visible_def
      split: sum.splits)

lemma fetchShare_sent: "snd (fetchShare oc st) = [resolve_request (token st)]"
  by (simp add: fetchShare_def fetchShare_begin_def resolve_request_def)

lemma fetchShare_state: "fst (fetchShare oc st) = fetchShare_settle oc (st\<lparr>loading := True, errorMessage := Str []\<rparr>)"
  by (simp add: fetchShare_def fetchShare_begin_def)

subsection \<open>The invariant\<close>

lemma start_fetch_fields:
  "view (start_fetch sys) = (view sys)\<lparr>loading := True, errorMessage := Str []\<rparr>"
  "sent (start_fetch sys) = sent sys @ [(FetchShare, token (view sys), resolve_request (token (view sys)))]"
  "answered (start_fetch sys) = answered sys"
  "inflight (start_fetch sys) = inflight sys @ [(FetchShare, token (view sys), resolve_request (token (view sys)))]"
  by (simp_all add: start_fetch_def fetchShare_begin_def Let_def resolve_request_def)

lemma sys_inv_mount: "sys_inv (mount t)"
  by (simp add: sys_inv_def mount_def start_fetch_fields share_setup_def selection_inv_def
      toggle_ids_def photo_cards_def downloads_sent_def public_call_def)

lemma sys_inv_start_fetch:
  assumes "sys_inv sys"
  shows "sys_inv (start_fetch (sys\<lparr>view := (view sys)\<lparr>token := t\<rparr>\<rparr>))"
proof -
  have r: "received_ids (start_fetch (sys\<lparr>view := (view sys)\<lparr>token := t\<rparr>\<rparr>)) = received_ids sys"
    by (simp add: received_ids_def start_fetch_fields)
  show ?thesis
    using assms
    by (simp add: sys_inv_def r start_fetch_fields selection_inv_def downloads_sent_def
        public_call_def)
qed

lemma view_update_frame:
  "received_ids (sys\<lparr>view := v\<rparr>) = received_ids sys"
  "downloads_sent (sys\<lparr>view := v\<rparr>) = downloads_sent sys"
  by (simp_all add: received_ids_def downloads_sent_def)

lemma sys_inv_toggle:
  assumes "sys_inv sys" "i \<in> set (toggle_ids (photos (view sys)))"
  shows "sys_inv (sys\<lparr>view := share_toggleSelection i (view sys)\<rparr>)"
  using assms
  by (auto simp add: sys_inv_def view_update_frame share_toggleSelection_def selection_inv_def)

lemma sys_inv_start_download:
  assumes "sys_inv sys"
    and "\<And>r. res = Inr (Some r) \<Longrightarrow>
           set (body_ids r) \<subseteq> set (selectedIds (view sys))
           \<and> r = download_request (token (view sys)) (body_ids r)"
  shows "sys_inv (start_download res sys)"
proof (cases res)
  case (Inl e)
  then show ?thesis using assms(1) by (simp add: start_download_def)
next
  case (Inr ro)
  show ?thesis
  proof (cases ro)
    case None
    then show ?thesis using assms(1) Inr by (simp add: start_download_def)
  next
    case (Some r)
    define sys' where "sys' = start_download res sys"
    have f: "view sys' = view sys" "answered sys' = answered sys"
      "sent sys' = sent sys @ [(DownloadPhotos, token (view sys), r)]"
      using Inr Some by (simp_all add: sys'_def start_download_def Let_def)
    have rc: "received_ids sys' = received_ids sys"
      by (simp add: received_ids_def f)
    have ids: "set (body_ids r) \<subseteq> set (received_ids sys)"
      and shape: "r = download_request (token (view sys)) (body_ids r)"
      using assms(1) assms(2) [of r] Inr Some
      by (auto simp add: sys_inv_def selection_inv_def)
    have "sys_inv sys'"
      using assms(1) ids shape
      by (simp add: sys_inv_def f rc downloads_sent_def public_call_def)
    then show ?thesis by (simp add: sys'_def)
  qed
qed

lemma sys_inv_settle:
  assumes "sys_inv sys"
  shows "sys_inv (sys\<lparr>view := settle (inflight sys ! n) oc (view sys),
               inflight := take n (inflight sys) @ drop (Suc n) (inflight sys),
               answered := answered sys @ [(inflight sys ! n, oc)]\<rparr>)"
proof -
  define sys' where "sys' = sys\<lparr>view := settle (inflight sys ! n) oc (view sys),
               inflight := take n (inflight sys) @ drop (Suc n) (inflight sys),
               answered := answered sys @ [(inflight sys ! n, oc)]\<rparr>"
  have sent': "sent sys' = sent sys" and dl': "downloads_sent sys' = downloads_sent sys"
    by (simp_all add: sys'_def downloads_sent_def)
  have grow: "set (received_ids sys) \<subseteq> set (received_ids sys')"
    by (auto simp add: sys'_def received_ids_def)
  have sel: "selection_inv (view sys')"
  proof (cases "fst (inflight sys ! n)")
    case FetchShare
    then show ?thesis
      using assms fetchShare_settle_selection [of "view sys" oc]
      by (simp add: sys'_def settle_def sys_inv_def)
  next
    case DownloadPhotos
    then show ?thesis
      using assms
      by (simp add: sys'_def settle_def sys_inv_def selection_inv_def downloadPhotos_settle_frame)
  qed
  have ph: "set (toggle_ids (photos (view sys'))) \<subseteq> set (received_ids sys')"
  proof (cases "fst (inflight sys ! n)")
    case FetchShare
    have new: "set (listed_ids oc) \<subseteq> set (received_ids sys')"
      using FetchShare by (auto simp add: sys'_def received_ids_def)
    have old: "set (toggle_ids (photos (view sys))) \<subseteq> set (received_ids sys')"
      using assms grow by (auto simp add: sys_inv_def)
    have v: "view sys' = fetchShare_settle oc (view sys)"
      using FetchShare by (simp add: sys'_def settle_def)
    show ?thesis
      using fetchShare_settle_photos [of oc "view sys"] new old v by auto
  next
    case DownloadPhotos
    then have "photos (view sys') = photos (view sys)"
      by (simp add: sys'_def settle_def downloadPhotos_settle_frame)
    then show ?thesis
      using assms grow by (auto simp add: sys_inv_def)
  qed
  have dls: "list_all (\<lambda>p. set (body_ids (snd (snd p))) \<subseteq> set (received_ids sys'))
      (downloads_sent sys')"
    using assms grow dl' by (auto simp add: sys_inv_def list_all_iff)
  have hs: "list_all public_call (sent sys')"
    using assms sent' by (simp add: sys_inv_def)
  show ?thesis
    using sel ph dls hs unfolding sys'_def [symmetric] by (simp add: sys_inv_def)
qed

lemma sys_inv_step: "sys_inv sys \<Longrightarrow> sys_inv (step e sys)"
proof (cases e)
  case (SetToken t)
  assume "sys_inv sys"
  then show ?thesis using SetToken sys_inv_start_fetch by simp
next
  case (Toggle i)
  assume "sys_inv sys"
  then show ?thesis using Toggle sys_inv_toggle by simp
next
  case ClickDownloadSelected
  assume inv: "sys_inv sys"
  have "sys_inv (start_download (downloadSelected_begin (view sys)) sys)"
    using inv
    by (rule sys_inv_start_download)
      (auto simp add: downloadSelected_begin_def body_ids_download_request
        dest!: downloadPhotos_begin_request split: if_splits)
  then show ?thesis using ClickDownloadSelected inv by simp
next
  case ClickDownloadAll
  assume inv: "sys_inv sys"
  have "sys_inv (start_download (downloadAll_begin (view sys)) sys)"
    using inv
    by (rule sys_inv_start_download)
      (auto simp add: downloadAll_begin_def body_ids_download_request
        dest!: downloadPhotos_begin_request)
  then show ?thesis using ClickDownloadAll inv by simp
next
  case (Settle n oc)
  assume "sys_inv sys"
  then show ?thesis using Settle sys_inv_settle by simp
qed

lemma sys_inv_run: "sys_inv sys \<Longrightarrow> sys_inv (run es sys)"
  unfolding run_def by (induction es arbitrary: sys) (simp_all add: sys_inv_step)

lemma sys_inv_reachable: "sys_inv (run es (mount t))"
  by (rule sys_inv_run) (rule sys_inv_mount)

subsection \<open>Runs without a route change\<close>








subsection \<open>Archive downloads\<close>

text \<open>
  C2. A download of the ids \<open>ids\<close> is sent when the download buttons are shown, as one
  \<open>POST /shares/{token}/download\<close> whose JSON body has a \<open>photo_ids\<close> field exactly when
  \<open>ids\<close> is not empty: download-all sends the empty object, a non-empty selection sends
  \<open>{photo_ids: <the selected ids>}\<close>. The same holds of every download request the view
  sends in any run from its mounting.
\<close>

theorem download_body_photo_ids:
  "snd (downloadPhotos ids oc st) =
     (if toolbar_visible st then [download_request (token st) ids] else [])
   \<and> (\<forall>r \<in> set (snd (downloadPhotos ids oc st)).
        has_field (req_body r) ''photo_ids'' = (ids \<noteq> []))
   \<and> has_field (req_body (download_request t ids)) ''photo_ids'' = (ids \<noteq> [])
   \<and> req_body (download_request t []) = Json (Obj [])
   \<and> (ids \<noteq> [] \<longrightarrow> req_body (download_request t ids) = Json (Obj [(''photo_ids'', Arr ids)]))
   \<and> snd (downloadAll oc st) =
       (if toolbar_visible st then [download_request (token st) []] else [])
   \<and> snd (downloadSelected oc st) =
       (if toolbar_visible st \<and> selectedIds st \<noteq> []
        then [download_request (token st) (selectedIds st)] else [])
   \<and> (\<forall>p \<in> set (downloads_sent (run es (mount t'))).
        snd (snd p) = download_request (fst (snd p)) (body_ids (snd (snd p)))
        \<and> has_field (req_body (snd (snd p))) ''photo_ids'' = (body_ids (snd (snd p)) \<noteq> []))"
proof -
  have hf: "has_field (req_body (download_request t ids)) ''photo_ids'' = (ids \<noteq> [])" for t ids
    by (simp add: has_field_def download_request_def)
  have sys: "\<forall>p \<in> set (downloads_sent (run es (mount t'))).
        snd (snd p) = download_request (fst (snd p)) (body_ids (snd (snd p)))"
    using sys_inv_reachable [of es t']
    by (auto simp add: sys_inv_def list_all_iff downloads_sent_def public_call_def)
  have sys2: "\<forall>p \<in> set (downloads_sent (run es (mount t'))).
        has_field (req_body (snd (snd p))) ''photo_ids'' = (body_ids (snd (snd p)) \<noteq> [])"
    using sys hf by metis
  show ?thesis
    using hf sys sys2
    by (simp add: downloadPhotos_sent downloadAll_def downloadSelected_def download_request_def)
qed

theorem download_body_photo_ids_witness:
  "snd (downloadAll (Rejected None) ((share_setup ''T'')\<lparr>photos := Arr [Obj [(''id'', Num 1)]]\<rparr>))
     = [\<lparr> req_method = POST, req_path = ''/shares/T/download'', req_headers = [],
          req_body = Json (Obj []), req_responseType = Some ''blob'' \<rparr>]
   \<and> snd (downloadSelected (Rejected None)
        ((share_setup ''T'')\<lparr>photos := Arr [Obj [(''id'', Num 1)]], selectedIds := [Num 1]\<rparr>))
     = [\<lparr> req_method = POST, req_path = ''/shares/T/download'', req_headers = [],
          req_body = Json (Obj [(''photo_ids'', Arr [Num 1])]), req_responseType = Some ''blob'' \<rparr>]
   \<and> downloads_sent (run [Settle 0 (Resolved (Response 200 (Obj [(''created_at'', Str ''2024-01-01''), (''photos'', Arr [Obj [(''id'', Num 1)]])]))), Toggle (Num 1),
          ClickDownloadSelected, ClickDownloadAll] (mount ''T''))
     = [(DownloadPhotos, ''T'', download_request ''T'' [Num 1]),
        (DownloadPhotos, ''T'', download_request ''T'' [])]"
proof -
  have run: "downloads_sent (run [Settle 0 (Resolved (Response 200 (Obj [(''created_at'', Str ''2024-01-01''), (''photos'', Arr [Obj [(''id'', Num 1)]])]))), Toggle (Num 1),
          ClickDownloadSelected, ClickDownloadAll] (mount ''T''))
     = [(DownloadPhotos, ''T'', download_request ''T'' [Num 1]),
        (DownloadPhotos, ''T'', download_request ''T'' [])]"
    by code_simp
  show ?thesis
    using run download_body_photo_ids
      [of "[Num 1]" "Rejected None"
        "(share_setup ''T'')\<lparr>photos := Arr [Obj [(''id'', Num 1)]], selectedIds := [Num 1]\<rparr>"
        "''T''"
        "[Settle 0 (Resolved (Response 200 (Obj [(''created_at'', Str ''2024-01-01''), (''photos'', Arr [Obj [(''id'', Num 1)]])]))), Toggle (Num 1),
          ClickDownloadSelected, ClickDownloadAll]" "''T''"]
      download_body_photo_ids
      [of "[]" "Rejected None"
        "(share_setup ''T'')\<lparr>photos := Arr [Obj [(''id'', Num 1)]]\<rparr>" "''T''" "[]" "''T''"]
    by (simp add: share_setup_def toolbar_visible_def download_request_def)
qed

subsection \<open>Resolving a share\<close>

text \<open>
  C3, the claim as stated: a failed request leaves the photo list empty. It fails when
  the view already holds a share: after share \<open>A\<close> was loaded and the route changed to
  token \<open>B\<close>, a failed request for \<open>B\<close> leaves the photos of \<open>A\<close> in the list.
\<close>

theorem fetchShare_failure_keeps_photos_counterexample:
  "photos (fst (fetchShare (Rejected None)
      ((fst (fetchShare
          (Resolved (Response 200
            (Obj [(''created_at'', Str ''2024-01-01''),
                  (''photos'', Arr [Obj [(''id'', Num 1)]])])))
          (share_setup ''A'')))\<lparr>token := ''B''\<rparr>)))
     = Arr [Obj [(''id'', Num 1)]]"
  by (simp add: fetchShare_def fetchShare_begin_def fetchShare_settle_def fetchShare_catch_def
      share_setup_def)

text \<open>
  C3, amended. \<open>fetchShare\<close> sends \<open>GET /shares/{token}\<close> with no header and no body.
  From a successful answer it takes the fields \<open>photos\<close> and \<open>created_at\<close> and nothing
  else: two answers that agree on these two reads give the same state. When the request
  fails, the error message is the server's answer or \<open>Partage introuvable.\<close>, it is
  truthy, so the gallery is not rendered, and the photo list and the selection are left
  as they were; the list is empty when the view has not loaded a share before.
\<close>

theorem fetchShare_contract:
  "snd (fetchShare oc st) = [resolve_request (token st)]
   \<and> resolve_request t =
       \<lparr> req_method = GET, req_path = ''/shares/'' @ t, req_headers = [],
         req_body = NoBody, req_responseType = None \<rparr>
   \<and> (get_prop (data r) ''photos'' = Inr ps \<and> get_prop (data r) ''created_at'' = Inr d \<longrightarrow>
        fst (fetchShare (Resolved r) st) =
          st\<lparr>photos := ps, shareDate := d, selectedIds := [], loading := False,
             errorMessage := Str []\<rparr>)
   \<and> (get_prop (data r) ''photos'' = get_prop (data r') ''photos''
        \<and> get_prop (data r) ''created_at'' = get_prop (data r') ''created_at'' \<longrightarrow>
        fst (fetchShare (Resolved r) st) = fst (fetchShare (Resolved r') st))
   \<and> fst (fetchShare (Rejected x) st) =
        st\<lparr>errorMessage :=
              js_or (error_response_data (AxiosError x)) (Str ''Partage introuvable.''),
           loading := False\<rparr>
   \<and> truthy (errorMessage (fst (fetchShare (Rejected x) st)))
   \<and> \<not> grid_visible (fst (fetchShare (Rejected x) st))
   \<and> photos (fst (fetchShare (Rejected x) st)) = photos st
   \<and> selectedIds (fst (fetchShare (Rejected x) st)) = selectedIds st
   \<and> photos (fst (fetchShare (Rejected x) (share_setup t))) = Arr []"
proof -
  have sent: "snd (fetchShare oc st) = [resolve_request (token st)]"
    by (rule fetchShare_sent)
  have req: "resolve_request t =
       \<lparr> req_method = GET, req_path = ''/shares/'' @ t, req_headers = [],
         req_body = NoBody, req_responseType = None \<rparr>"
    by (simp add: resolve_request_def)
  have ok: "get_prop (data r) ''photos'' = Inr ps \<and> get_prop (data r) ''created_at'' = Inr d \<longrightarrow>
        fst (fetchShare (Resolved r) st) =
          st\<lparr>photos := ps, shareDate := d, selectedIds := [], loading := False,
             errorMessage := Str []\<rparr>"
    by (simp add: fetchShare_state fetchShare_settle_fields)
  have only: "get_prop (data r) ''photos'' = get_prop (data r') ''photos''
        \<and> get_prop (data r) ''created_at'' = get_prop (data r') ''created_at'' \<longrightarrow>
      fst (fetchShare (Resolved r) st) = fst (fetchShare (Resolved r') st)"
    using fetchShare_settle_only_fields [of r r' "st\<lparr>loading := True, errorMessage := Str []\<rparr>"]
    by (simp add: fetchShare_state)
  have rej: "fst (fetchShare (Rejected x) st) =
        st\<lparr>errorMessage :=
              js_or (error_response_data (AxiosError x)) (Str ''Partage introuvable.''),
           loading := False\<rparr>" for st
    by (simp add: fetchShare_state fetchShare_settle_rejected)
  have tr: "truthy (errorMessage (fst (fetchShare (Rejected x) st)))"
    by (simp add: rej js_or_truthy)
  have hid: "\<not> grid_visible (fst (fetchShare (Rejected x) st))"
    using tr by (simp add: grid_visible_def)
  have keep: "photos (fst (fetchShare (Rejected x) st)) = photos st"
    "selectedIds (fst (fetchShare (Rejected x) st)) = selectedIds st"
    by (simp_all add: rej)
  have init: "photos (fst (fetchShare (Rejected x) (share_setup t))) = Arr []"
    by (simp add: rej share_setup_def)
  show ?thesis
    using sent req ok only rej [of st] tr hid keep init by blast
qed

theorem fetchShare_contract_witness:
  "fst (fetchShare
      (Resolved (Response 200
        (Obj [(''created_at'', Str ''2024-01-01''),
              (''photos'', Arr [Obj [(''id'', Num 1)]]),
              (''token'', Str ''T'')])))
      (share_setup ''T''))
    = \<lparr> token = ''T'', photos = Arr [Obj [(''id'', Num 1)]], selectedIds = [],
        loading = False, errorMessage = Str [], shareDate = Str ''2024-01-01'' \<rparr>
   \<and> fst (fetchShare
      (Resolved (Response 200
        (Obj [(''created_at'', Str ''2024-01-01''),
              (''photos'', Arr [Obj [(''id'', Num 1)]]),
              (''token'', Str ''T'')])))
      (share_setup ''T''))
     = fst (fetchShare
      (Resolved (Response 201
        (Obj [(''photos'', Arr [Obj [(''id'', Num 1)]]),
              (''created_at'', Str ''2024-01-01'')])))
      (share_setup ''T''))"
proof -
  have reads:
    "get_prop (data (Response 200
        (Obj [(''created_at'', Str ''2024-01-01''),
              (''photos'', Arr [Obj [(''id'', Num 1)]]),
              (''token'', Str ''T'')]))) ''photos'' = Inr (Arr [Obj [(''id'', Num 1)]])
     \<and> get_prop (data (Response 200
        (Obj [(''created_at'', Str ''2024-01-01''),
              (''photos'', Arr [Obj [(''id'', Num 1)]]),
              (''token'', Str ''T'')]))) ''created_at'' = Inr (Str ''2024-01-01'')"
    by simp
  have same:
    "get_prop (data (Response 200
        (Obj [(''created_at'', Str ''2024-01-01''),
              (''photos'', Arr [Obj [(''id'', Num 1)]]),
              (''token'', Str ''T'')]))) ''photos''
      = get_prop (data (Response 201
        (Obj [(''photos'', Arr [Obj [(''id'', Num 1)]]),
              (''created_at'', Str ''2024-01-01'')]))) ''photos''
     \<and> get_prop (data (Response 200
        (Obj [(''created_at'', Str ''2024-01-01''),
              (''photos'', Arr [Obj [(''id'', Num 1)]]),
              (''token'', Str ''T'')]))) ''created_at''
      = get_prop (data (Response 201
        (Obj [(''photos'', Arr [Obj [(''id'', Num 1)]]),
              (''created_at'', Str ''2024-01-01'')]))) ''created_at''"
    by simp
  note inst = fetchShare_contract
    [of "Rejected None" "share_setup ''T''" "''T''"
      "Response 200
        (Obj [(''created_at'', Str ''2024-01-01''),
              (''photos'', Arr [Obj [(''id'', Num 1)]]),
              (''token'', Str ''T'')])"
      "Arr [Obj [(''id'', Num 1)]]" "Str ''2024-01-01''"
      "Response 201
        (Obj [(''photos'', Arr [Obj [(''id'', Num 1)]]),
              (''created_at'', Str ''2024-01-01'')])"
      "None"]
  have first: "fst (fetchShare
      (Resolved (Response 200
        (Obj [(''created_at'', Str ''2024-01-01''),
              (''photos'', Arr [Obj [(''id'', Num 1)]]),
              (''token'', Str ''T'')])))
      (share_setup ''T''))
    = (share_setup ''T'')\<lparr>photos := Arr [Obj [(''id'', Num 1)]], shareDate := Str ''2024-01-01'',
         selectedIds := [], loading := False, errorMessage := Str []\<rparr>"
    using inst reads by blast
  have second: "fst (fetchShare
      (Resolved (Response 200
        (Obj [(''created_at'', Str ''2024-01-01''),
              (''photos'', Arr [Obj [(''id'', Num 1)]]),
              (''token'', Str ''T'')])))
      (share_setup ''T''))
     = fst (fetchShare
      (Resolved (Response 201
        (Obj [(''photos'', Arr [Obj [(''id'', Num 1)]]),
              (''created_at'', Str ''2024-01-01'')])))
      (share_setup ''T''))"
    using inst same by blast
  show ?thesis
    using first second by (simp add: share_setup_def)
qed

subsection \<open>The selection and the photo list\<close>




section \<open>Properties of the admin console\<close>

subsection \<open>The requests each handler sends, and what a failure does to the secret\<close>

lemma fetchPhotos_sent:
  "snd (fetchPhotos oc st) =
     (if adminPassword st = [] then []
      else [\<lparr> req_method = GET, req_path = ''/photos'',
              req_headers = adminHeaders (adminPassword st),
              req_body = NoBody, req_responseType = None \<rparr>])"
  by (simp add: fetchPhotos_def Let_def split: outcome.split sum.split)

lemma handleError_cases:
  "handleError e st =
     (if (\<exists>r. error_response e = Some r \<and> status r = 403)
      then st\<lparr>admin.errorMessage := Str ''Mot de passe invalide.'', adminPassword := [],
              sessionStorage := (sessionStorage st)(storage_key := None)\<rparr>
      else st\<lparr>admin.errorMessage := js_coalesce (error_response_data e) (Str ''Erreur inattendue'')\<rparr>)"
  by (auto simp add: handleError_def error_response_data_def split: option.split)

lemma handleError_frame:
  "admin.photos (handleError e st) = admin.photos st"
  "admin.selectedIds (handleError e st) = admin.selectedIds st"
  "shareDetails (handleError e st) = shareDetails st"
  "statusMessage (handleError e st) = statusMessage st"
  "passwordInput (handleError e st) = passwordInput st"
  by (simp_all add: handleError_def split: option.split)

lemma handleError_flag:
  "(handleError e (st\<lparr>uploading := b\<rparr>))\<lparr>uploading := c\<rparr> = (handleError e st)\<lparr>uploading := c\<rparr>"
  "(handleError e (st\<lparr>deleting := b\<rparr>))\<lparr>deleting := c\<rparr> = (handleError e st)\<lparr>deleting := c\<rparr>"
  "(handleError e (st\<lparr>generating := b\<rparr>))\<lparr>generating := c\<rparr> = (handleError e st)\<lparr>generating := c\<rparr>"
  by (simp_all add: handleError_def split: option.split)

lemma handleUpload_sent:
  "snd (handleUpload files oc1 oc2 st) =
     (if files = [] \<or> adminPassword st = [] then []
      else \<lparr> req_method = POST, req_path = ''/images/add'',
              req_headers = adminHeaders (adminPassword st) @ [(''Content-Type'', ''multipart/form-data'')],
              req_body = FormData (map (\<lambda>f. (''photos'', f)) files), req_responseType = None \<rparr>
           # (case oc1 of Rejected r \<Rightarrow> [] | Resolved r \<Rightarrow>
               [\<lparr> req_method = GET, req_path = ''/photos'',
                  req_headers = adminHeaders (adminPassword st),
                  req_body = NoBody, req_responseType = None \<rparr>]))"
  by (simp add: handleUpload_def Let_def case_prod_beta fetchPhotos_sent split: outcome.split)

lemma deleteSelected_sent:
  "snd (deleteSelected oc1 oc2 st) =
     (if admin.selectedIds st = [] then []
      else \<lparr> req_method = DELETE, req_path = ''/photos'',
              req_headers = adminHeaders (adminPassword st),
              req_body = Json (Obj [(''photo_ids'', Arr (admin.selectedIds st))]), req_responseType = None \<rparr>
           # (case oc1 of Rejected r \<Rightarrow> [] | Resolved r \<Rightarrow>
               if adminPassword st = [] then [] else
               [\<lparr> req_method = GET, req_path = ''/photos'',
                  req_headers = adminHeaders (adminPassword st),
                  req_body = NoBody, req_responseType = None \<rparr>]))"
  by (simp add: deleteSelected_def selectionCount_def Let_def case_prod_beta fetchPhotos_sent split: outcome.split)

lemma generateShare_sent:
  "snd (generateShare oc st) =
     (if admin.selectedIds st = [] then []
      else [\<lparr> req_method = POST, req_path = ''/shares'',
              req_headers = adminHeaders (adminPassword st),
              req_body = Json (Obj [(''photo_ids'', Arr (admin.selectedIds st))]), req_responseType = None \<rparr>])"
  by (simp add: generateShare_def selectionCount_def Let_def split: outcome.split)

lemma unlock_sent:
  "snd (unlock oc st) =
     (if js_trim (passwordInput st) = [] then []
      else [\<lparr> req_method = GET, req_path = ''/photos'',
              req_headers = adminHeaders (js_trim (passwordInput st)),
              req_body = NoBody, req_responseType = None \<rparr>])"
  by (simp add: unlock_def fetchPhotos_sent persistPassword_def)

lemma admin_mounted_sent:
  "snd (admin_mounted oc st) = snd (fetchPhotos oc st)"
  by (simp add: admin_mounted_def fetchPhotos_sent)

lemma fetchPhotos_secret:
  "adminPassword (fst (fetchPhotos oc st)) =
     (if adminPassword st \<noteq> [] \<and> unauthorized oc then [] else adminPassword st)"
  "sessionStorage (fst (fetchPhotos oc st)) =
     (if adminPassword st \<noteq> [] \<and> unauthorized oc then (sessionStorage st)(storage_key := None)
      else sessionStorage st)"
  by (auto simp add: fetchPhotos_def Let_def handleError_cases unauthorized_def
      split: outcome.split sum.split option.split dest: get_prop_throws)

lemma fetchPhotos_frame:
  "shareDetails (fst (fetchPhotos oc st)) = shareDetails st"
  "uploading (fst (fetchPhotos oc st)) = uploading st"
  by (auto simp add: fetchPhotos_def Let_def handleError_cases split: outcome.split sum.split)

lemma handleUpload_secret:
  "adminPassword (fst (handleUpload files oc1 oc2 st)) =
     (if files \<noteq> [] \<and> adminPassword st \<noteq> [] \<and> (unauthorized oc1 \<or> resolved oc1 \<and> unauthorized oc2)
      then [] else adminPassword st)"
  "sessionStorage (fst (handleUpload files oc1 oc2 st)) =
     (if files \<noteq> [] \<and> adminPassword st \<noteq> [] \<and> (unauthorized oc1 \<or> resolved oc1 \<and> unauthorized oc2)
      then (sessionStorage st)(storage_key := None) else sessionStorage st)"
  by (auto simp add: handleUpload_def Let_def case_prod_beta fetchPhotos_secret handleError_cases
      unauthorized_def resolved_def split: outcome.split option.split)

lemma deleteSelected_secret:
  "adminPassword (fst (deleteSelected oc1 oc2 st)) =
     (if admin.selectedIds st \<noteq> [] \<and> (unauthorized oc1 \<or> resolved oc1 \<and> adminPassword st \<noteq> [] \<and> unauthorized oc2)
      then [] else adminPassword st)"
  "sessionStorage (fst (deleteSelected oc1 oc2 st)) =
     (if admin.selectedIds st \<noteq> [] \<and> (unauthorized oc1 \<or> resolved oc1 \<and> adminPassword st \<noteq> [] \<and> unauthorized oc2)
      then (sessionStorage st)(storage_key := None) else sessionStorage st)"
  by (auto simp add: deleteSelected_def selectionCount_def Let_def case_prod_beta fetchPhotos_secret handleError_cases
      unauthorized_def resolved_def split: outcome.split option.split)

lemma generateShare_secret:
  "adminPassword (fst (generateShare oc st)) =
     (if admin.selectedIds st \<noteq> [] \<and> unauthorized oc then [] else adminPassword st)"
  "sessionStorage (fst (generateShare oc st)) =
     (if admin.selectedIds st \<noteq> [] \<and> unauthorized oc then (sessionStorage st)(storage_key := None)
      else sessionStorage st)"
  by (auto simp add: generateShare_def selectionCount_def Let_def handleError_cases
      unauthorized_def split: outcome.split option.split)

lemma rejected_calls_handleError:
  "adminPassword st \<noteq> [] \<Longrightarrow> fst (fetchPhotos (Rejected x) st) = handleError (AxiosError x) st"
  "files \<noteq> [] \<Longrightarrow> adminPassword st \<noteq> [] \<Longrightarrow>
     fst (handleUpload files (Rejected x) oc2 st) = (handleError (AxiosError x) st)\<lparr>uploading := False\<rparr>"
  "admin.selectedIds st \<noteq> [] \<Longrightarrow>
     fst (deleteSelected (Rejected x) oc2 st) = (handleError (AxiosError x) st)\<lparr>deleting := False\<rparr>"
  "admin.selectedIds st \<noteq> [] \<Longrightarrow>
     fst (generateShare (Rejected x) st) = (handleError (AxiosError x) st)\<lparr>generating := False\<rparr>"
  by (simp_all add: fetchPhotos_def handleUpload_def deleteSelected_def generateShare_def
      selectionCount_def Let_def handleError_flag)

lemma generateShare_resolved:
  "admin.selectedIds st \<noteq> [] \<Longrightarrow>
   fst (generateShare (Resolved r) st) =
     st\<lparr>shareDetails := data r,
        statusMessage := ''Lien de partage cr'' @ [CHR 0xE9, CHR 0xE9],
        generating := False\<rparr>"
  by (simp add: generateShare_def selectionCount_def Let_def)

lemma render_share_card_fields:
  "truthy d \<Longrightarrow> get_prop d ''token'' = Inr tok \<Longrightarrow> get_prop d ''share_url'' = Inr url \<Longrightarrow>
   get_prop d ''photos'' = Inr ps \<Longrightarrow> get_prop ps ''length'' = Inr n \<Longrightarrow>
   render_share_card (a\<lparr>shareDetails := d\<rparr>) =
     Inr (Some \<lparr> card_token = tok, card_href = url, card_link_text = url,
                 card_qr_value = url, card_photo_count = n \<rparr>)"
  by (simp add: render_share_card_def)

lemma render_share_card_only_fields:
  "truthy d = truthy d' \<Longrightarrow> get_prop d ''token'' = get_prop d' ''token'' \<Longrightarrow>
   get_prop d ''share_url'' = get_prop d' ''share_url'' \<Longrightarrow>
   get_prop d ''photos'' = get_prop d' ''photos'' \<Longrightarrow>
   render_share_card (a\<lparr>shareDetails := d\<rparr>) = render_share_card (a'\<lparr>shareDetails := d'\<rparr>)"
  by (auto simp add: render_share_card_def split: sum.split)

lemma deleteSelected_resolved:
  "admin.selectedIds st \<noteq> [] \<Longrightarrow>
   fst (deleteSelected (Resolved r) oc2 st) =
     (fst (fetchPhotos oc2 (st\<lparr>deleting := True,
              statusMessage := ''Photos supprim'' @ [CHR 0xE9] @ ''es'',
              shareDetails := Null\<rparr>)))\<lparr>deleting := False\<rparr>"
  by (simp add: deleteSelected_def selectionCount_def Let_def case_prod_beta)

lemma deleteSelected_clears_share:
  "admin.selectedIds st \<noteq> [] \<Longrightarrow> shareDetails (fst (deleteSelected (Resolved r) oc2 st)) = Null"
  by (simp add: deleteSelected_resolved fetchPhotos_frame)

subsection \<open>The handlers and their pieces\<close>

lemma fetchPhotos_split:
  "fetchPhotos oc st =
     (case fetchPhotos_begin st of
        None \<Rightarrow> (st, [])
      | Some req \<Rightarrow> (fetchPhotos_settle oc st, [req]))"
  by (simp add: fetchPhotos_def fetchPhotos_begin_def fetchPhotos_settle_def Let_def
      split: outcome.split sum.split)

lemma generateShare_split:
  "generateShare oc st =
     (case generateShare_begin st of
        (st1, None) \<Rightarrow> (st1, [])
      | (st1, Some req) \<Rightarrow> (generateShare_settle oc st1, [req]))"
  by (simp add: generateShare_def generateShare_begin_def generateShare_settle_def Let_def
      split: outcome.split)

lemma deleteSelected_split:
  "deleteSelected oc oc' st =
     (case deleteSelected_begin st of
        (st1, None) \<Rightarrow> (st1, [])
      | (st1, Some req) \<Rightarrow>
          (case deleteSelected_settle oc st1 of
             (st2, None) \<Rightarrow> (st2, [req])
           | (st2, Some req') \<Rightarrow> (deleteSelected_finish oc' st2, [req, req'])))"
  by (simp add: deleteSelected_def deleteSelected_begin_def deleteSelected_settle_def
      deleteSelected_finish_def fetchPhotos_split Let_def
      split: outcome.split option.split)

lemma fetchPhotos_settle_share: "shareDetails (fetchPhotos_settle oc st) = shareDetails st"
  by (simp add: fetchPhotos_settle_def Let_def handleError_frame split: outcome.split sum.split)

lemma deleteSelected_settle_share:
  "shareDetails (fst (deleteSelected_settle (Resolved r) st)) = Null"
  by (simp add: deleteSelected_settle_def Let_def split: option.split)

subsection \<open>Failed operations\<close>

text \<open>
  \<open>handleError\<close> tells the unauthorized signal from every other error. On an answer of
  status 403 it empties the secret in memory and removes the copy in \<open>sessionStorage\<close>:
  the console is locked, and stays locked when it is set up again from the storage. On
  any other error (another status, no answer, a TypeError) the secret and the storage
  are unchanged and \<open>errorMessage\<close> becomes the server's answer, or \<open>Erreur inattendue\<close>
  when the answer is \<open>null\<close> or \<open>undefined\<close>. Every handler passes a rejected request to
  \<open>handleError\<close>, and after any handler the secret is cleared exactly when a request of
  the handler met the signal.
\<close>

theorem handleError_distinguishes_403:
  "(unauthorized (Rejected x) \<longrightarrow>
      adminPassword (handleError (AxiosError x) st) = []
      \<and> sessionStorage (handleError (AxiosError x) st) = (sessionStorage st)(storage_key := None)
      \<and> sessionStorage (handleError (AxiosError x) st) storage_key = None
      \<and> \<not> isUnlocked (handleError (AxiosError x) st)
      \<and> \<not> isUnlocked (admin_setup (sessionStorage (handleError (AxiosError x) st)))
      \<and> admin.errorMessage (handleError (AxiosError x) st) = Str ''Mot de passe invalide.'')
   \<and> (\<not> (\<exists>r. error_response e = Some r \<and> status r = 403) \<longrightarrow>
      adminPassword (handleError e st) = adminPassword st
      \<and> sessionStorage (handleError e st) = sessionStorage st
      \<and> admin.errorMessage (handleError e st)
          = js_coalesce (error_response_data e) (Str ''Erreur inattendue''))
   \<and> (adminPassword st \<noteq> [] \<longrightarrow>
        fst (fetchPhotos (Rejected x) st) = handleError (AxiosError x) st)
   \<and> (files \<noteq> [] \<and> adminPassword st \<noteq> [] \<longrightarrow>
        fst (handleUpload files (Rejected x) oc' st)
          = (handleError (AxiosError x) st)\<lparr>uploading := False\<rparr>)
   \<and> (admin.selectedIds st \<noteq> [] \<longrightarrow>
        fst (deleteSelected (Rejected x) oc' st)
          = (handleError (AxiosError x) st)\<lparr>deleting := False\<rparr>)
   \<and> (admin.selectedIds st \<noteq> [] \<longrightarrow>
        fst (generateShare (Rejected x) st)
          = (handleError (AxiosError x) st)\<lparr>generating := False\<rparr>)
   \<and> adminPassword (fst (fetchPhotos oc st)) =
        (if adminPassword st \<noteq> [] \<and> unauthorized oc then [] else adminPassword st)
   \<and> sessionStorage (fst (fetchPhotos oc st)) =
        (if adminPassword st \<noteq> [] \<and> unauthorized oc
         then (sessionStorage st)(storage_key := None) else sessionStorage st)
   \<and> adminPassword (fst (handleUpload files oc oc' st)) =
        (if files \<noteq> [] \<and> adminPassword st \<noteq> []
            \<and> (unauthorized oc \<or> resolved oc \<and> unauthorized oc')
         then [] else adminPassword st)
   \<and> sessionStorage (fst (handleUpload files oc oc' st)) =
        (if files \<noteq> [] \<and> adminPassword st \<noteq> []
            \<and> (unauthorized oc \<or> resolved oc \<and> unauthorized oc')
         then (sessionStorage st)(storage_key := None) else sessionStorage st)
   \<and> adminPassword (fst (deleteSelected oc oc' st)) =
        (if admin.selectedIds st \<noteq> []
            \<and> (unauthorized oc \<or> resolved oc \<and> adminPassword st \<noteq> [] \<and> unauthorized oc')
         then [] else adminPassword st)
   \<and> sessionStorage (fst (deleteSelected oc oc' st)) =
        (if admin.selectedIds st \<noteq> []
            \<and> (unauthorized oc \<or> resolved oc \<and> adminPassword st \<noteq> [] \<and> unauthorized oc')
         then (sessionStorage st)(storage_key := None) else sessionStorage st)
   \<and> adminPassword (fst (generateShare oc st)) =
        (if admin.selectedIds st \<noteq> [] \<and> unauthorized oc then [] else adminPassword st)
   \<and> sessionStorage (fst (generateShare oc st)) =
        (if admin.selectedIds st \<noteq> [] \<and> unauthorized oc
         then (sessionStorage st)(storage_key := None) else sessionStorage st)"
  (is "?forbidden \<and> ?other \<and> ?rest")
proof -
  have f: "unauthorized (Rejected x) \<Longrightarrow>
      handleError (AxiosError x) st =
        st\<lparr>admin.errorMessage := Str ''Mot de passe invalide.'', adminPassword := [],
           sessionStorage := (sessionStorage st)(storage_key := None)\<rparr>"
    by (auto simp add: handleError_cases unauthorized_def split: option.splits)
  have a: ?forbidden
    by (simp add: f isUnlocked_def admin_setup_def)
  have b: ?other
    by (auto simp add: handleError_cases)
  have c: ?rest
    by (simp add: rejected_calls_handleError fetchPhotos_secret handleUpload_secret
        deleteSelected_secret generateShare_secret)
  show ?thesis
    using a b c by blast
qed

theorem handleError_distinguishes_403_witness:
  "adminPassword (fst (fetchPhotos (Rejected (Some (Response 403 (Str ''Forbidden''))))
      (admin_setup [storage_key \<mapsto> ''admin'']))) = []
   \<and> sessionStorage (fst (fetchPhotos (Rejected (Some (Response 403 (Str ''Forbidden''))))
      (admin_setup [storage_key \<mapsto> ''admin'']))) storage_key = None
   \<and> admin.errorMessage (fst (fetchPhotos (Rejected (Some (Response 403 (Str ''Forbidden''))))
      (admin_setup [storage_key \<mapsto> ''admin'']))) = Str ''Mot de passe invalide.''
   \<and> adminPassword (fst (fetchPhotos (Rejected (Some (Response 500 (Str ''boom''))))
      (admin_setup [storage_key \<mapsto> ''admin'']))) = ''admin''
   \<and> sessionStorage (fst (fetchPhotos (Rejected (Some (Response 500 (Str ''boom''))))
      (admin_setup [storage_key \<mapsto> ''admin'']))) storage_key = Some ''admin''
   \<and> admin.errorMessage (fst (fetchPhotos (Rejected (Some (Response 500 (Str ''boom''))))
      (admin_setup [storage_key \<mapsto> ''admin'']))) = Str ''boom''"
  using handleError_distinguishes_403
    [where x = "Some (Response 403 (Str ''Forbidden''))"
       and st = "admin_setup [storage_key \<mapsto> ''admin'']"
       and e = "AxiosError (Some (Response 500 (Str ''boom'')))"
       and oc = "Rejected (Some (Response 500 (Str ''boom'')))"]
  by (simp add: unauthorized_def admin_setup_def storage_key_def fetchPhotos_def
      adminHeaders_def handleError_def js_coalesce_def nullish_def error_response_data_def)

text \<open>
  C4, at an answer with an empty body. A delete request is rejected with status 500 and
  the body \<open>''\<close>. The secret is kept, as the claim says, but \<open>??\<close> replaces only
  \<open>null\<close> and \<open>undefined\<close>: \<open>errorMessage\<close> becomes the empty string, the paragraph under
  \<open>v-if="errorMessage"\<close> is not rendered, and neither a message of the server nor the
  fallback is displayed. The share view's \<open>catch\<close> uses \<open>||\<close> and shows its fallback for
  the same answer.
\<close>

theorem handleError_empty_body_not_displayed:
  "admin.errorMessage
     (fst (deleteSelected (Rejected (Some (Response 500 (Str [])))) (Rejected None)
        ((admin_setup [storage_key \<mapsto> ''admin''])\<lparr>admin.selectedIds := [Num 3]\<rparr>))) = Str []
   \<and> error_paragraph
     (fst (deleteSelected (Rejected (Some (Response 500 (Str [])))) (Rejected None)
        ((admin_setup [storage_key \<mapsto> ''admin''])\<lparr>admin.selectedIds := [Num 3]\<rparr>))) = None
   \<and> adminPassword
     (fst (deleteSelected (Rejected (Some (Response 500 (Str [])))) (Rejected None)
        ((admin_setup [storage_key \<mapsto> ''admin''])\<lparr>admin.selectedIds := [Num 3]\<rparr>))) = ''admin''
   \<and> errorMessage (fst (fetchShare (Rejected (Some (Response 500 (Str [])))) (share_setup ''T'')))
       = Str ''Partage introuvable.''"
  by (simp add: deleteSelected_def selectionCount_def admin_setup_def handleError_def
      error_response_data_def js_coalesce_def nullish_def error_paragraph_def adminHeaders_def
      fetchShare_def fetchShare_begin_def fetchShare_settle_def fetchShare_catch_def
      share_setup_def js_or_def)

subsection \<open>Creating a share\<close>

text \<open>
  C6. With a selection, \<open>generateShare\<close> sends one \<open>POST /shares\<close> with the admin secret
  header and the body \<open>{photo_ids: <the selected ids>}\<close>; without one it sends nothing. A
  successful answer is stored in \<open>shareDetails\<close>, and the share card reads exactly
  \<open>token\<close>, \<open>share_url\<close> and \<open>photos\<close> of it: it shows the token, uses the URL as link
  target, link text and QR value, and shows the length of \<open>photos\<close>. Two answers that
  agree on these three reads render the same card.
\<close>

theorem generateShare_contract:
  "(admin.selectedIds st = [] \<longrightarrow> generateShare oc st = (st, []))
   \<and> (admin.selectedIds st \<noteq> [] \<longrightarrow>
        snd (generateShare oc st) =
          [\<lparr> req_method = POST, req_path = ''/shares'',
              req_headers = [(''X-Admin-Password'', adminPassword st)],
              req_body = Json (Obj [(''photo_ids'', Arr (admin.selectedIds st))]),
              req_responseType = None \<rparr>]
        \<and> fst (generateShare (Resolved r) st) =
            st\<lparr>shareDetails := data r,
               statusMessage := ''Lien de partage cr'' @ [CHR 0xE9, CHR 0xE9],
               generating := False\<rparr>)
   \<and> (truthy d \<and> get_prop d ''token'' = Inr tok \<and> get_prop d ''share_url'' = Inr url
        \<and> get_prop d ''photos'' = Inr ps \<and> get_prop ps ''length'' = Inr n \<longrightarrow>
        render_share_card (a\<lparr>shareDetails := d\<rparr>) =
          Inr (Some \<lparr> card_token = tok, card_href = url, card_link_text = url,
                      card_qr_value = url, card_photo_count = n \<rparr>))
   \<and> (get_prop (Arr xs) ''length'' = Inr (Num (int (length xs))))
   \<and> (truthy d = truthy d' \<and> get_prop d ''token'' = get_prop d' ''token''
        \<and> get_prop d ''share_url'' = get_prop d' ''share_url''
        \<and> get_prop d ''photos'' = get_prop d' ''photos'' \<longrightarrow>
        render_share_card (a\<lparr>shareDetails := d\<rparr>) = render_share_card (a'\<lparr>shareDetails := d'\<rparr>))"
  (is "?none \<and> ?some \<and> ?card \<and> ?len \<and> ?only")
proof -
  have a: ?none
    by (simp add: generateShare_def selectionCount_def)
  have b: ?some
    by (simp add: generateShare_sent generateShare_resolved adminHeaders_def)
  have c: ?card
    using render_share_card_fields [of d tok url ps n a] by blast
  have d: ?len
    by simp
  have e: ?only
    using render_share_card_only_fields [of d d' a a'] by blast
  show ?thesis
    using a b c d e by blast
qed

theorem generateShare_contract_witness:
  "snd (generateShare (Rejected None)
      ((admin_setup [storage_key \<mapsto> ''admin''])\<lparr>admin.selectedIds := [Num 3, Num 5]\<rparr>))
     = [\<lparr> req_method = POST, req_path = ''/shares'',
          req_headers = [(''X-Admin-Password'', ''admin'')],
          req_body = Json (Obj [(''photo_ids'', Arr [Num 3, Num 5])]),
          req_responseType = None \<rparr>]
   \<and> render_share_card (fst (generateShare
        (Resolved (Response 201
          (Obj [(''token'', Str ''tok''), (''share_url'', Str ''http://f/share/tok''),
                (''photos'', Arr [Obj [(''id'', Num 3)], Obj [(''id'', Num 5)]])])))
        ((admin_setup [storage_key \<mapsto> ''admin''])\<lparr>admin.selectedIds := [Num 3, Num 5]\<rparr>)))
     = Inr (Some \<lparr> card_token = Str ''tok'', card_href = Str ''http://f/share/tok'',
                   card_link_text = Str ''http://f/share/tok'',
                   card_qr_value = Str ''http://f/share/tok'',
                   card_photo_count = Num 2 \<rparr>)"
  using generateShare_contract
    [where st = "(admin_setup [storage_key \<mapsto> ''admin''])\<lparr>admin.selectedIds := [Num 3, Num 5]\<rparr>"
       and oc = "Rejected None"
       and r = "Response 201
          (Obj [(''token'', Str ''tok''), (''share_url'', Str ''http://f/share/tok''),
                (''photos'', Arr [Obj [(''id'', Num 3)], Obj [(''id'', Num 5)]])])"
       and d = "Obj [(''token'', Str ''tok''), (''share_url'', Str ''http://f/share/tok''),
                (''photos'', Arr [Obj [(''id'', Num 3)], Obj [(''id'', Num 5)]])]"
       and tok = "Str ''tok''" and url = "Str ''http://f/share/tok''"
       and ps = "Arr [Obj [(''id'', Num 3)], Obj [(''id'', Num 5)]]" and n = "Num 2"
       and a = "(admin_setup [storage_key \<mapsto> ''admin''])\<lparr>admin.selectedIds := [Num 3, Num 5],
               statusMessage := ''Lien de partage cr'' @ [CHR 0xE9, CHR 0xE9],
               generating := False\<rparr>"
       and d' = "Obj [(''token'', Str ''tok''), (''share_url'', Str ''http://f/share/tok''),
                (''photos'', Arr [Obj [(''id'', Num 3)], Obj [(''id'', Num 5)]])]"]
  by (simp add: admin_setup_def)

subsection \<open>Deleting photos\<close>

text \<open>
  C7, the claim as stated: after a deletion the view never shows a share preview over
  just-deleted photos. It fails when a \<open>generateShare\<close> request is in flight during the
  deletion: the deletion succeeds, the listing arrives without the photo, and then the
  answer to the share request sets \<open>shareDetails\<close> to a share over the deleted photo and
  the card is rendered. The two buttons do not exclude each other.
\<close>

theorem delete_then_share_answer_counterexample:
  "Num 3 \<in> set (body_ids (the (snd (deleteSelected_begin
    (fst (generateShare_begin
     ((admin_setup [storage_key \<mapsto> ''admin''])
       \<lparr>admin.photos := Arr [Obj [(''id'', Num 3)]], admin.selectedIds := [Num 3]\<rparr>)))))))
   \<and> admin.photos (generateShare_settle
  (Resolved (Response 201
    (Obj [(''token'', Str ''tok''), (''share_url'', Str ''http://f/share/tok''),
          (''photos'', Arr [Obj [(''id'', Num 3)]])])))
 (deleteSelected_finish (Resolved (Response 200 (Arr [])))
  (fst (deleteSelected_settle (Resolved (Response 200 (Obj [(''deleted'', Num 1)])))
   (fst (deleteSelected_begin
    (fst (generateShare_begin
     ((admin_setup [storage_key \<mapsto> ''admin''])
       \<lparr>admin.photos := Arr [Obj [(''id'', Num 3)]], admin.selectedIds := [Num 3]\<rparr>))))))))) = Arr []
   \<and> Num 3 \<in> set (preview_ids (generateShare_settle
  (Resolved (Response 201
    (Obj [(''token'', Str ''tok''), (''share_url'', Str ''http://f/share/tok''),
          (''photos'', Arr [Obj [(''id'', Num 3)]])])))
 (deleteSelected_finish (Resolved (Response 200 (Arr [])))
  (fst (deleteSelected_settle (Resolved (Response 200 (Obj [(''deleted'', Num 1)])))
   (fst (deleteSelected_begin
    (fst (generateShare_begin
     ((admin_setup [storage_key \<mapsto> ''admin''])
       \<lparr>admin.photos := Arr [Obj [(''id'', Num 3)]], admin.selectedIds := [Num 3]\<rparr>))))))))))"
  by (simp add: generateShare_begin_def deleteSelected_begin_def deleteSelected_settle_def
      deleteSelected_finish_def generateShare_settle_def fetchPhotos_begin_def
      fetchPhotos_settle_def selectionCount_def admin_setup_def preview_ids_def
      render_share_card_def body_ids_def adminHeaders_def)

text \<open>
  C7, amended. With a selection, \<open>deleteSelected\<close> first sends \<open>DELETE /photos\<close> with the
  admin secret header and the body \<open>{photo_ids: <the selected ids>}\<close>. When the answer
  is a success it sets \<open>shareDetails\<close> to \<open>null\<close>, whatever happened while it waited, so
  no share card is rendered then, and calls \<open>fetchPhotos\<close>: in the unlocked console (the
  only state that shows the button) the listing is requested again and, when it
  arrives, replaces the photos and empties the selection. The listing's answer and a
  rejected share request leave \<open>shareDetails\<close> as it is; a successful answer to a
  \<open>generateShare\<close> request sets it again.
\<close>

theorem deleteSelected_contract:
  "(admin.selectedIds st = [] \<longrightarrow> deleteSelected oc oc' st = (st, []))
   \<and> (admin.selectedIds st \<noteq> [] \<longrightarrow>
        hd (snd (deleteSelected oc oc' st)) =
          \<lparr> req_method = DELETE, req_path = ''/photos'',
            req_headers = [(''X-Admin-Password'', adminPassword st)],
            req_body = Json (Obj [(''photo_ids'', Arr (admin.selectedIds st))]),
            req_responseType = None \<rparr>
        \<and> snd (deleteSelected oc oc' st) \<noteq> []
        \<and> snd (deleteSelected (Rejected x) oc' st) =
            [\<lparr> req_method = DELETE, req_path = ''/photos'',
               req_headers = [(''X-Admin-Password'', adminPassword st)],
               req_body = Json (Obj [(''photo_ids'', Arr (admin.selectedIds st))]),
               req_responseType = None \<rparr>]
        \<and> shareDetails (fst (deleteSelected (Resolved r) oc' st)) = Null
        \<and> render_share_card (fst (deleteSelected (Resolved r) oc' st)) = Inr None
        \<and> fst (deleteSelected (Resolved r) oc' st) =
            (fst (fetchPhotos oc'
               (st\<lparr>deleting := True,
                   statusMessage := ''Photos supprim'' @ [CHR 0xE9] @ ''es'',
                   shareDetails := Null\<rparr>)))\<lparr>deleting := False\<rparr>)
   \<and> (admin.selectedIds st \<noteq> [] \<and> isUnlocked st \<longrightarrow>
        snd (deleteSelected (Resolved r) oc' st) =
          [\<lparr> req_method = DELETE, req_path = ''/photos'',
              req_headers = [(''X-Admin-Password'', adminPassword st)],
              req_body = Json (Obj [(''photo_ids'', Arr (admin.selectedIds st))]),
              req_responseType = None \<rparr>,
           \<lparr> req_method = GET, req_path = ''/photos'',
              req_headers = [(''X-Admin-Password'', adminPassword st)],
              req_body = NoBody, req_responseType = None \<rparr>])
   \<and> (admin.selectedIds st \<noteq> [] \<and> isUnlocked st \<and> get_prop (data r') ''length'' = Inr n \<longrightarrow>
        admin.photos (fst (deleteSelected (Resolved r) (Resolved r') st)) = data r'
        \<and> admin.selectedIds (fst (deleteSelected (Resolved r) (Resolved r') st)) = [])
   \<and> deleteSelected oc oc' st =
        (case deleteSelected_begin st of
           (st1, None) \<Rightarrow> (st1, [])
         | (st1, Some req) \<Rightarrow>
             (case deleteSelected_settle oc st1 of
                (st2, None) \<Rightarrow> (st2, [req])
              | (st2, Some req') \<Rightarrow> (deleteSelected_finish oc' st2, [req, req'])))
   \<and> (shareDetails (fst (deleteSelected_settle (Resolved r) s)) = Null
        \<and> render_share_card (fst (deleteSelected_settle (Resolved r) s)) = Inr None
        \<and> preview_ids (fst (deleteSelected_settle (Resolved r) s)) = []
        \<and> (isUnlocked s \<longrightarrow>
             snd (deleteSelected_settle (Resolved r) s) =
               Some \<lparr> req_method = GET, req_path = ''/photos'',
                      req_headers = [(''X-Admin-Password'', adminPassword s)],
                      req_body = NoBody, req_responseType = None \<rparr>))
   \<and> (shareDetails (deleteSelected_finish oc s) = shareDetails s
        \<and> shareDetails (fetchPhotos_settle oc s) = shareDetails s
        \<and> shareDetails (generateShare_settle (Rejected x) s) = shareDetails s
        \<and> shareDetails (generateShare_settle (Resolved r) s) = data r)"
  (is "?none \<and> ?some \<and> ?refetch \<and> ?listing \<and> ?pieces \<and> ?answer \<and> ?later")
proof -
  have a: ?none
    by (simp add: deleteSelected_def selectionCount_def)
  have b: ?some
    by (simp add: deleteSelected_sent deleteSelected_resolved deleteSelected_clears_share
        adminHeaders_def render_share_card_def fetchPhotos_frame)
  have c: ?refetch
    by (simp add: deleteSelected_sent adminHeaders_def isUnlocked_def)
  have d: ?listing
    by (simp add: deleteSelected_resolved fetchPhotos_def isUnlocked_def Let_def)
  have e: ?pieces
    by (rule deleteSelected_split)
  have f: ?answer
    by (simp add: deleteSelected_settle_def Let_def render_share_card_def preview_ids_def
        fetchPhotos_begin_def isUnlocked_def adminHeaders_def)
  have g: ?later
    by (simp add: deleteSelected_finish_def fetchPhotos_settle_share generateShare_settle_def
        handleError_frame)
  show ?thesis
    using a b c d e f g by blast
qed

theorem deleteSelected_contract_witness:
  "snd (deleteSelected (Resolved (Response 200 (Obj [(''deleted'', Num 1)])))
        (Resolved (Response 200 (Arr [Obj [(''id'', Num 5)]])))
        ((admin_setup [storage_key \<mapsto> ''admin''])
           \<lparr>admin.selectedIds := [Num 3],
            shareDetails := Obj [(''token'', Str ''tok'')]\<rparr>))
     = [\<lparr> req_method = DELETE, req_path = ''/photos'',
          req_headers = [(''X-Admin-Password'', ''admin'')],
          req_body = Json (Obj [(''photo_ids'', Arr [Num 3])]),
          req_responseType = None \<rparr>,
        \<lparr> req_method = GET, req_path = ''/photos'',
          req_headers = [(''X-Admin-Password'', ''admin'')],
          req_body = NoBody, req_responseType = None \<rparr>]
   \<and> shareDetails (fst (deleteSelected (Resolved (Response 200 (Obj [(''deleted'', Num 1)])))
        (Resolved (Response 200 (Arr [Obj [(''id'', Num 5)]])))
        ((admin_setup [storage_key \<mapsto> ''admin''])
           \<lparr>admin.selectedIds := [Num 3],
            shareDetails := Obj [(''token'', Str ''tok'')]\<rparr>))) = Null
   \<and> admin.photos (fst (deleteSelected (Resolved (Response 200 (Obj [(''deleted'', Num 1)])))
        (Resolved (Response 200 (Arr [Obj [(''id'', Num 5)]])))
        ((admin_setup [storage_key \<mapsto> ''admin''])
           \<lparr>admin.selectedIds := [Num 3],
            shareDetails := Obj [(''token'', Str ''tok'')]\<rparr>))) = Arr [Obj [(''id'', Num 5)]]"
proof -
  note inst = deleteSelected_contract
    [where st = "((admin_setup [storage_key \<mapsto> ''admin''])
           \<lparr>admin.selectedIds := [Num 3],
            shareDetails := Obj [(''token'', Str ''tok'')]\<rparr>)"
       and oc = "Resolved (Response 200 (Obj [(''deleted'', Num 1)]))"
       and oc' = "Resolved (Response 200 (Arr [Obj [(''id'', Num 5)]]))"
       and r = "(Response 200 (Obj [(''deleted'', Num 1)]))" and r' = "(Response 200 (Arr [Obj [(''id'', Num 5)]]))" and n = "Num 1" and x = None
       and s = "((admin_setup [storage_key \<mapsto> ''admin''])
           \<lparr>admin.selectedIds := [Num 3],
            shareDetails := Obj [(''token'', Str ''tok'')]\<rparr>)"]
  have sel: "admin.selectedIds ((admin_setup [storage_key \<mapsto> ''admin''])
           \<lparr>admin.selectedIds := [Num 3],
            shareDetails := Obj [(''token'', Str ''tok'')]\<rparr>) \<noteq> [] \<and> isUnlocked ((admin_setup [storage_key \<mapsto> ''admin''])
           \<lparr>admin.selectedIds := [Num 3],
            shareDetails := Obj [(''token'', Str ''tok'')]\<rparr>)"
    by (simp add: admin_setup_def isUnlocked_def)
  have len: "get_prop (data (Response 200 (Arr [Obj [(''id'', Num 5)]]))) ''length'' = Inr (Num 1)"
    by simp
  have reqs: "snd (deleteSelected (Resolved (Response 200 (Obj [(''deleted'', Num 1)])))
        (Resolved (Response 200 (Arr [Obj [(''id'', Num 5)]])))
        ((admin_setup [storage_key \<mapsto> ''admin''])
           \<lparr>admin.selectedIds := [Num 3],
            shareDetails := Obj [(''token'', Str ''tok'')]\<rparr>))
     = [\<lparr> req_method = DELETE, req_path = ''/photos'',
          req_headers = [(''X-Admin-Password'', adminPassword ((admin_setup [storage_key \<mapsto> ''admin''])
           \<lparr>admin.selectedIds := [Num 3],
            shareDetails := Obj [(''token'', Str ''tok'')]\<rparr>))],
          req_body = Json (Obj [(''photo_ids'', Arr (admin.selectedIds ((admin_setup [storage_key \<mapsto> ''admin''])
           \<lparr>admin.selectedIds := [Num 3],
            shareDetails := Obj [(''token'', Str ''tok'')]\<rparr>)))]),
          req_responseType = None \<rparr>,
        \<lparr> req_method = GET, req_path = ''/photos'',
          req_headers = [(''X-Admin-Password'', adminPassword ((admin_setup [storage_key \<mapsto> ''admin''])
           \<lparr>admin.selectedIds := [Num 3],
            shareDetails := Obj [(''token'', Str ''tok'')]\<rparr>))],
          req_body = NoBody, req_responseType = None \<rparr>]"
    using inst sel by blast
  have sd: "shareDetails (fst (deleteSelected (Resolved (Response 200 (Obj [(''deleted'', Num 1)])))
        (Resolved (Response 200 (Arr [Obj [(''id'', Num 5)]])))
        ((admin_setup [storage_key \<mapsto> ''admin''])
           \<lparr>admin.selectedIds := [Num 3],
            shareDetails := Obj [(''token'', Str ''tok'')]\<rparr>))) = Null"
    using inst sel by blast
  have ph: "admin.photos (fst (deleteSelected (Resolved (Response 200 (Obj [(''deleted'', Num 1)])))
        (Resolved (Response 200 (Arr [Obj [(''id'', Num 5)]])))
        ((admin_setup [storage_key \<mapsto> ''admin''])
           \<lparr>admin.selectedIds := [Num 3],
            shareDetails := Obj [(''token'', Str ''tok'')]\<rparr>))) = data (Response 200 (Arr [Obj [(''id'', Num 5)]]))"
    using inst sel len by blast
  show ?thesis
    using reqs sd ph by (simp add: admin_setup_def)
qed

subsection \<open>Who presents the secret\<close>

text \<open>
  C1. Every request an admin handler sends goes to one of \<open>GET /photos\<close>,
  \<open>POST /images/add\<close>, \<open>DELETE /photos\<close> and \<open>POST /shares\<close> and carries the secret of the
  state in the \<open>X-Admin-Password\<close> header (\<open>unlock\<close> carries the trimmed input it has just
  stored). The admin file URL has the secret as its only query parameter, named
  \<open>password\<close>. Every request the share view sends, in any run from its mounting, is the
  resolve request or a download request of its token: no header, a path made of the
  token, a body of photo ids at most. The share file URL is made of the base, the token
  and the photo id.
\<close>

theorem admin_secret_presented:
  "(\<forall>q \<in> set (snd (fetchPhotos oc st)) \<union> set (snd (admin_mounted oc st))
          \<union> set (snd (handleUpload files oc oc' st)) \<union> set (snd (deleteSelected oc oc' st))
          \<union> set (snd (generateShare oc st)).
        header q ''X-Admin-Password'' = Some (adminPassword st)
        \<and> (req_method q, req_path q)
            \<in> {(GET, ''/photos''), (POST, ''/images/add''), (DELETE, ''/photos''), (POST, ''/shares'')})
   \<and> (\<forall>q \<in> set (snd (unlock oc st)).
        header q ''X-Admin-Password'' = Some (js_trim (passwordInput st))
        \<and> (req_method q, req_path q) = (GET, ''/photos''))
   \<and> (adminPassword st \<noteq> [] \<and> get_prop photo ''id'' = Inr i \<longrightarrow>
        admin_buildPhotoSrc ser env st photo =
          Inr (apiBaseUrl env @ ''/photos/'' @ to_string i @ ''/file?''
               @ ser [(''password'', adminPassword st)]))
   \<and> (\<forall>p \<in> set (sent (run es (mount t))).
        req_headers (snd (snd p)) = []
        \<and> (snd (snd p) = resolve_request (fst (snd p))
            \<or> snd (snd p) = download_request (fst (snd p)) (body_ids (snd (snd p)))))
   \<and> resolve_request t =
        \<lparr> req_method = GET, req_path = ''/shares/'' @ t, req_headers = [],
          req_body = NoBody, req_responseType = None \<rparr>
   \<and> download_request t ids =
        \<lparr> req_method = POST, req_path = ''/shares/'' @ t @ ''/download'', req_headers = [],
          req_body = Json (if ids \<noteq> [] then Obj [(''photo_ids'', Arr ids)] else Obj []),
          req_responseType = Some ''blob'' \<rparr>
   \<and> (get_prop photo ''id'' = Inr i \<longrightarrow>
        share_buildPhotoSrc env sv photo =
          Inr (apiBaseUrl env @ ''/shares/'' @ token sv @ ''/files/'' @ to_string i))"
  (is "?admin \<and> ?unlock \<and> ?file \<and> ?public \<and> ?resolve \<and> ?download \<and> ?sharefile")
proof -
  have a: ?admin
    by (auto simp add: fetchPhotos_sent admin_mounted_sent handleUpload_sent deleteSelected_sent
        generateShare_sent header_def adminHeaders_def split: outcome.splits if_splits)
  have b: ?unlock
    by (simp add: unlock_sent header_def adminHeaders_def)
  have c: ?file
    by (simp add: admin_buildPhotoSrc_def photoFileUrl_def)
  have inv: "list_all public_call (sent (run es (mount t)))"
    using sys_inv_reachable [of es t] by (simp add: sys_inv_def)
  have shape: "snd (snd p) = resolve_request (fst (snd p))
      \<or> snd (snd p) = download_request (fst (snd p)) (body_ids (snd (snd p)))"
    if "p \<in> set (sent (run es (mount t)))" for p
  proof -
    have "public_call p"
      using inv that by (simp add: list_all_iff)
    then show ?thesis
      by (cases p) (auto simp add: public_call_def split: call.splits)
  qed
  have nohdr: "req_headers (snd (snd p)) = []"
    if "p \<in> set (sent (run es (mount t)))" for p
    using shape [OF that]
    by (metis download_request_def resolve_request_def request.select_convs(3))
  have d: ?public
    using shape nohdr by blast
  have e: ?resolve
    by (simp add: resolve_request_def)
  have f: ?download
    by (simp add: download_request_def)
  have g: ?sharefile
    by (simp add: share_buildPhotoSrc_def shareFileUrl_def)
  show ?thesis
    using a b c d e f g by blast
qed

theorem admin_secret_presented_witness:
  "snd (deleteSelected (Resolved (Response 200 Null)) (Rejected None)
        ((admin_setup [storage_key \<mapsto> ''admin''])\<lparr>admin.selectedIds := [Num 3]\<rparr>))
     = [\<lparr> req_method = DELETE, req_path = ''/photos'',
          req_headers = [(''X-Admin-Password'', ''admin'')],
          req_body = Json (Obj [(''photo_ids'', Arr [Num 3])]),
          req_responseType = None \<rparr>,
        \<lparr> req_method = GET, req_path = ''/photos'',
          req_headers = [(''X-Admin-Password'', ''admin'')],
          req_body = NoBody, req_responseType = None \<rparr>]
   \<and> header \<lparr> req_method = DELETE, req_path = ''/photos'',
          req_headers = [(''X-Admin-Password'', ''admin'')],
          req_body = Json (Obj [(''photo_ids'', Arr [Num 3])]),
          req_responseType = None \<rparr> ''X-Admin-Password'' = Some ''admin''
   \<and> map (\<lambda>p. req_headers (snd (snd p)))
        (sent (run [Settle 0 (Resolved (Response 200
                      (Obj [(''created_at'', Str ''2024-01-01''),
                            (''photos'', Arr [Obj [(''id'', Num 1)]])]))),
                    ClickDownloadAll]
                 (mount ''T''))) = [[], []]"
proof -
  note inst = admin_secret_presented
    [where oc = "Resolved (Response 200 Null)" and oc' = "Rejected None"
       and st = "(admin_setup [storage_key \<mapsto> ''admin''])\<lparr>admin.selectedIds := [Num 3]\<rparr>"
       and es = "[Settle 0 (Resolved (Response 200
                      (Obj [(''created_at'', Str ''2024-01-01''),
                            (''photos'', Arr [Obj [(''id'', Num 1)]])]))),
                    ClickDownloadAll]"
       and t = "''T''"]
  have reqs: "snd (deleteSelected (Resolved (Response 200 Null)) (Rejected None)
        ((admin_setup [storage_key \<mapsto> ''admin''])\<lparr>admin.selectedIds := [Num 3]\<rparr>))
     = [\<lparr> req_method = DELETE, req_path = ''/photos'',
          req_headers = [(''X-Admin-Password'', ''admin'')],
          req_body = Json (Obj [(''photo_ids'', Arr [Num 3])]),
          req_responseType = None \<rparr>,
        \<lparr> req_method = GET, req_path = ''/photos'',
          req_headers = [(''X-Admin-Password'', ''admin'')],
          req_body = NoBody, req_responseType = None \<rparr>]"
    by (simp add: deleteSelected_sent admin_setup_def adminHeaders_def)
  have pw: "adminPassword ((admin_setup [storage_key \<mapsto> ''admin''])\<lparr>admin.selectedIds := [Num 3]\<rparr>)
      = ''admin''"
    by (simp add: admin_setup_def)
  have hdr: "header \<lparr> req_method = DELETE, req_path = ''/photos'',
          req_headers = [(''X-Admin-Password'', ''admin'')],
          req_body = Json (Obj [(''photo_ids'', Arr [Num 3])]),
          req_responseType = None \<rparr> ''X-Admin-Password'' = Some ''admin''"
    using inst reqs pw by simp
  have run: "sent (run [Settle 0 (Resolved (Response 200
                      (Obj [(''created_at'', Str ''2024-01-01''),
                            (''photos'', Arr [Obj [(''id'', Num 1)]])]))),
                    ClickDownloadAll]
                 (mount ''T''))
      = [(FetchShare, ''T'', resolve_request ''T''), (DownloadPhotos, ''T'', download_request ''T'' [])]"
    by code_simp
  have pub: "map (\<lambda>p. req_headers (snd (snd p)))
        (sent (run [Settle 0 (Resolved (Response 200
                      (Obj [(''created_at'', Str ''2024-01-01''),
                            (''photos'', Arr [Obj [(''id'', Num 1)]])]))),
                    ClickDownloadAll]
                 (mount ''T''))) = [[], []]"
    using inst run by simp
  show ?thesis
    using reqs hdr pub by blast
qed

subsection \<open>Atomic share creation\<close>

text \<open>
  C5. In the Share Service as the specification describes it, a creation over an id set
  with a missing id fails and returns the store unchanged: no share row is added, so an
  id that no share row referenced is referenced by none afterwards. On the client,
  \<open>generateShare\<close> sends at most one request, a \<open>POST /shares\<close> whose body names the whole
  selection, and a rejected request leaves \<open>shareDetails\<close> as it was.
\<close>

theorem share_creation_atomic:
  "((\<exists>i \<in> set ids. i \<notin> set (photo_rows db)) \<longrightarrow>
      (\<exists>e. fst (create_share secret presented fresh ids db) = Inl e)
      \<and> snd (create_share secret presented fresh ids db) = db
      \<and> share_rows (snd (create_share secret presented fresh ids db)) = share_rows db
      \<and> (\<forall>i \<in> set ids. \<not> referenced i db \<longrightarrow>
            \<not> referenced i (snd (create_share secret presented fresh ids db))))
   \<and> length (snd (generateShare oc st)) \<le> 1
   \<and> (\<forall>q \<in> set (snd (generateShare oc st)).
        req_method q = POST \<and> req_path q = ''/shares''
        \<and> body_ids q = admin.selectedIds st)
   \<and> shareDetails (fst (generateShare (Rejected x) st)) = shareDetails st"
  (is "?server \<and> ?one \<and> ?whole \<and> ?nothing")
proof -
  have a: ?server
    by (auto simp add: create_share_def list_ex_iff)
  have b: ?one
    by (simp add: generateShare_sent)
  have c: ?whole
    by (simp add: generateShare_sent body_ids_def)
  have d: ?nothing
    by (simp add: generateShare_def selectionCount_def Let_def handleError_frame)
  show ?thesis
    using a b c d by blast
qed

theorem share_creation_atomic_witness:
  "fst (create_share ''s'' ''s'' ''tok'' [Num 1, Num 2, Num 9]
         \<lparr> photo_rows = [Num 1, Num 2], share_rows = [] \<rparr>) = Inl MissingPhoto
   \<and> snd (create_share ''s'' ''s'' ''tok'' [Num 1, Num 2, Num 9]
         \<lparr> photo_rows = [Num 1, Num 2], share_rows = [] \<rparr>)
       = \<lparr> photo_rows = [Num 1, Num 2], share_rows = [] \<rparr>
   \<and> \<not> referenced (Num 1) (snd (create_share ''s'' ''s'' ''tok'' [Num 1, Num 2, Num 9]
         \<lparr> photo_rows = [Num 1, Num 2], share_rows = [] \<rparr>))
   \<and> map body_ids (snd (generateShare (Rejected None)
        ((admin_setup [storage_key \<mapsto> ''admin''])\<lparr>admin.selectedIds := [Num 1, Num 2, Num 9]\<rparr>)))
       = [[Num 1, Num 2, Num 9]]"
  using share_creation_atomic
    [where ids = "[Num 1, Num 2, Num 9]"
       and db = "\<lparr> photo_rows = [Num 1, Num 2], share_rows = [] \<rparr>"
       and secret = "''s''" and presented = "''s''" and fresh = "''tok''"
       and oc = "Rejected None" and x = None
       and st = "(admin_setup [storage_key \<mapsto> ''admin''])\<lparr>admin.selectedIds := [Num 1, Num 2, Num 9]\<rparr>"]
  by (simp add: create_share_def referenced_def generateShare_sent body_ids_def admin_setup_def)

section \<open>Properties of the base URL and the request URLs\<close>










end
